theory Spec2Isabelle
  imports Complex_Main
begin

section \<open>Data model\<close>

text \<open>
  The examination subsystem of the backend: \<^verbatim>\<open>AttemptService\<close>
  (exams/services/answer-key.service.ts, second unit of that file) and
  \<^verbatim>\<open>AnswerService\<close> (exams/services/answer.service.ts). Both are request handlers
  over a relational database reached through the Prisma client. The database is modelled
  as a record of tables, each table a list of rows; a handler takes the database and
  returns its result together with the database it leaves behind. A thrown HTTP
  exception is the \<open>Inl\<close> branch of the result.

  Identifiers are strings, instants (\<^verbatim>\<open>Date\<close>) are milliseconds as integers, and
  JavaScript numbers are modelled as real numbers (marks may be fractional). A column
  that may be \<^verbatim>\<open>null\<close>, and a request field that may be absent, is an \<open>option\<close>.
  The generated Prisma schema is not among the sources: the enumerations list the
  members the services name, and tables carry the columns the services read or write.
\<close>

type_synonym ident = string
type_synonym date = int

datatype AttemptStatus = IN_PROGRESS | SUBMITTED | COMPLETED | EVALUATED

datatype QuestionType = MCQ | DESCRIPTIVE

datatype PurchaseStatus = PURCHASE_PENDING | PURCHASE_COMPLETED | PURCHASE_FAILED | PURCHASE_REFUNDED

datatype PurchaseType = COURSE | TEST_SERIES | INDIVIDUAL_EXAM

text \<open>
  The exceptions of the framework. \<open>ConflictException\<close> (HTTP 409) is never thrown by
  the two services; it is listed because the specification names it.
  \<open>InternalServerError\<close> stands for an uncaught runtime error (a rejected database
  call, a property read on \<^verbatim>\<open>null\<close>), which the framework answers with HTTP 500.
\<close>

datatype error =
    NotFoundException
  | ForbiddenException
  | BadRequestException
  | ConflictException
  | InternalServerError

record Exam =
  exam_id :: ident
  exam_isActive :: bool
  exam_isFree :: bool
  exam_totalMarks :: real
  exam_negativeMarking :: bool
  exam_correctMark :: real
  exam_incorrectMark :: real
  exam_teacherId :: ident
  exam_testSeriesId :: "ident option"

record Question =
  question_id :: ident
  question_examId :: ident
  question_type :: QuestionType
  question_options :: "string list"
  question_correctOption :: "string option"
  question_marks :: real

record Purchase =
  purchase_id :: ident
  purchase_userId :: ident
  purchase_status :: PurchaseStatus
  purchase_type :: PurchaseType
  purchase_examId :: "ident option"
  purchase_testSeriesId :: "ident option"
  purchase_validTill :: date

record Attempt =
  attempt_id :: ident
  attempt_userId :: ident
  attempt_examId :: ident
  attempt_status :: AttemptStatus
  attempt_startTime :: "date option"
  attempt_submitTime :: "date option"
  attempt_endTime :: "date option"
  attempt_maxScore :: real
  attempt_score :: "real option"
  attempt_percentage :: "real option"
  attempt_correctAnswers :: "int option"
  attempt_incorrectAnswers :: "int option"
  attempt_unattempted :: "int option"
  attempt_accuracy :: "real option"
  attempt_rank :: "int option"
  attempt_timeSpent :: "real option"
  attempt_answerSheetUrl :: "string option"
  attempt_evaluationStatus :: "string option"
  attempt_evaluatedBy :: "ident option"
  attempt_feedback :: "string option"

record Answer =
  answer_id :: ident
  answer_attemptId :: ident
  answer_questionId :: ident
  answer_selectedOption :: "string option"
  answer_answerText :: "string option"
  answer_timeSpent :: "real option"
  answer_marks :: "real option"
  answer_feedback :: "string option"
  answer_evaluatedBy :: "ident option"
  answer_evaluatedAt :: "date option"

record Database =
  db_exams :: "Exam list"
  db_questions :: "Question list"
  db_purchases :: "Purchase list"
  db_attempts :: "Attempt list"
  db_answers :: "Answer list"

subsection \<open>Request payloads\<close>

text \<open>
  The payloads as the services use them. \<^verbatim>\<open>CreateAttemptDto\<close> also declares
  \<^verbatim>\<open>accessType\<close> and \<^verbatim>\<open>enrollmentId\<close>, which \<^verbatim>\<open>AttemptService.create\<close> never reads.
  The global validation pipe (main.ts) admits a payload only when each present field has
  its declared type, so \<^verbatim>\<open>timeSpent\<close> is a number and the branches
  \<^verbatim>\<open>typeof timeSpent === 'string'\<close> of the services are never taken; \<^verbatim>\<open>feedback\<close> is
  valid JSON text (\<^verbatim>\<open>@IsJSON\<close>), so its \<^verbatim>\<open>JSON.parse\<close> succeeds, and the parsed value
  is represented by its text.
\<close>

record CreateAttemptDto =
  cad_examId :: ident
  cad_status :: "AttemptStatus option"
  cad_timeSpent :: "real option"

record UpdateAttemptDto =
  uad_status :: "AttemptStatus option"
  uad_timeSpent :: "real option"
  uad_score :: "real option"
  uad_evaluationStatus :: "string option"
  uad_feedback :: "string option"
  uad_correctAnswers :: "int option"
  uad_incorrectAnswers :: "int option"
  uad_unattempted :: "int option"
  uad_accuracy :: "real option"
  uad_rank :: "int option"
  uad_answerSheetUrl :: "string option"

record CreateAnswerDto =
  cans_attemptId :: ident
  cans_questionId :: ident
  cans_selectedOption :: "string option"
  cans_answerText :: "string option"
  cans_timeSpent :: "real option"

record UpdateAnswerDto =
  uans_selectedOption :: "string option"
  uans_answerText :: "string option"
  uans_timeSpent :: "real option"

record Evaluation =
  ev_questionId :: ident
  ev_marks :: real
  ev_feedback :: "string option"

subsection \<open>JavaScript and Prisma idioms\<close>

text \<open>
  A string is truthy when it is present and not empty; a number is falsy when it is
  zero, so \<^verbatim>\<open>x || d\<close> on numbers is \<open>d\<close> exactly when \<open>x = 0\<close>.
\<close>

definition truthy :: "string option \<Rightarrow> bool" where
  "truthy s = (case s of None \<Rightarrow> False | Some t \<Rightarrow> t \<noteq> [])"

definition orElse :: "real \<Rightarrow> real \<Rightarrow> real" where
  "orElse x d = (if x = 0 then d else x)"

text \<open>
  In the \<^verbatim>\<open>data\<close> of a Prisma update an absent (\<^verbatim>\<open>undefined\<close>) field leaves the
  column as it is, a present one replaces it.
\<close>

definition setIfDefined :: "'a option \<Rightarrow> 'a option \<Rightarrow> 'a option" where
  "setIfDefined new old = (case new of None \<Rightarrow> old | Some v \<Rightarrow> Some v)"

text \<open>\<^verbatim>\<open>update({ where: { id }, data })\<close>: the rows with that id are rewritten.\<close>

definition updateAttemptRow :: "ident \<Rightarrow> (Attempt \<Rightarrow> Attempt) \<Rightarrow> Attempt list \<Rightarrow> Attempt list" where
  "updateAttemptRow i f rows = map (\<lambda>a. if attempt_id a = i then f a else a) rows"

definition updateAnswerRow :: "ident \<Rightarrow> (Answer \<Rightarrow> Answer) \<Rightarrow> Answer list \<Rightarrow> Answer list" where
  "updateAnswerRow i f rows = map (\<lambda>a. if answer_id a = i then f a else a) rows"

section \<open>Entitlement: AttemptService.checkExamAccess\<close>

text \<open>
  Both purchase queries filter on user, status, type and the purchased entity, and on
  nothing else. The test-series query runs only when \<^verbatim>\<open>exam?.testSeriesId\<close> is truthy.
\<close>

definition checkExamAccess :: "Database \<Rightarrow> ident \<Rightarrow> ident \<Rightarrow> bool \<Rightarrow> bool" where
  "checkExamAccess db userId examId isFree =
     (if isFree then True
      else if find (\<lambda>p. purchase_userId p = userId \<and> purchase_status p = PURCHASE_COMPLETED
                        \<and> purchase_type p = INDIVIDUAL_EXAM \<and> purchase_examId p = Some examId)
                (db_purchases db) \<noteq> None then True
      else (case find (\<lambda>e. exam_id e = examId) (db_exams db) of
              None \<Rightarrow> False
            | Some exam \<Rightarrow>
                (if truthy (exam_testSeriesId exam) then
                   (if find (\<lambda>p. purchase_userId p = userId \<and> purchase_status p = PURCHASE_COMPLETED
                                 \<and> purchase_type p = TEST_SERIES
                                 \<and> purchase_testSeriesId p = exam_testSeriesId exam)
                         (db_purchases db) \<noteq> None then True else False)
                 else False)))"

text \<open>
  The entitlement rule in the specification's words: a free exam is always accessible;
  otherwise a completed purchase whose validity end is at or after the current time must
  cover the exam itself or its parent test series.
\<close>

definition hasAccess_spec :: "date \<Rightarrow> Database \<Rightarrow> ident \<Rightarrow> ident \<Rightarrow> bool \<Rightarrow> bool" where
  "hasAccess_spec now db userId examId isFree =
     (isFree \<or>
      list_ex (\<lambda>p. purchase_userId p = userId \<and> purchase_status p = PURCHASE_COMPLETED
                   \<and> now \<le> purchase_validTill p
                   \<and> ((purchase_type p = INDIVIDUAL_EXAM \<and> purchase_examId p = Some examId)
                      \<or> (purchase_type p = TEST_SERIES
                          \<and> list_ex (\<lambda>e. exam_id e = examId \<and> exam_testSeriesId e \<noteq> None
                                          \<and> purchase_testSeriesId p = exam_testSeriesId e)
                               (db_exams db))))
        (db_purchases db))"

section \<open>Attempt creation: AttemptService.create\<close>

text \<open>
  \<open>now\<close> is the clock reading and \<open>newId\<close> the identifier the database generates for
  the inserted row. Every exception is thrown before the insert, so a failed call leaves
  the database as it was. Columns the insert does not name start as \<^verbatim>\<open>null\<close>.
\<close>

definition newAttempt :: "date \<Rightarrow> ident \<Rightarrow> ident \<Rightarrow> CreateAttemptDto \<Rightarrow> Exam \<Rightarrow> Attempt" where
  "newAttempt now newId userId dto exam =
     \<lparr> attempt_id = newId,
       attempt_userId = userId,
       attempt_examId = exam_id exam,
       attempt_status = (case cad_status dto of None \<Rightarrow> IN_PROGRESS | Some s \<Rightarrow> s),
       attempt_startTime = Some (now + 2 * 60 * 1000),
       attempt_submitTime = None,
       attempt_endTime = None,
       attempt_maxScore = exam_totalMarks exam,
       attempt_score = None,
       attempt_percentage = None,
       attempt_correctAnswers = None,
       attempt_incorrectAnswers = None,
       attempt_unattempted = None,
       attempt_accuracy = None,
       attempt_rank = None,
       attempt_timeSpent = cad_timeSpent dto,
       attempt_answerSheetUrl = None,
       attempt_evaluationStatus = None,
       attempt_evaluatedBy = None,
       attempt_feedback = None \<rparr>"

definition AttemptService_create ::
    "date \<Rightarrow> ident \<Rightarrow> ident \<Rightarrow> CreateAttemptDto \<Rightarrow> Database \<Rightarrow> (error + Attempt) \<times> Database" where
  "AttemptService_create now newId userId dto db =
     (case find (\<lambda>e. exam_id e = cad_examId dto \<and> exam_isActive e) (db_exams db) of
        None \<Rightarrow> (Inl NotFoundException, db)
      | Some exam \<Rightarrow>
          (if \<not> checkExamAccess db userId (exam_id exam) (exam_isFree exam)
             then (Inl ForbiddenException, db)
           else if find (\<lambda>a. attempt_userId a = userId \<and> attempt_examId a = exam_id exam
                              \<and> attempt_status a = IN_PROGRESS) (db_attempts db) \<noteq> None
             then (Inl BadRequestException, db)
           else (Inr (newAttempt now newId userId dto exam),
                 db\<lparr>db_attempts := db_attempts db @ [newAttempt now newId userId dto exam]\<rparr>)))"

section \<open>Scoring: AttemptService.calculateScore\<close>

record ScoreData =
  sd_score :: real
  sd_correctAnswers :: int
  sd_incorrectAnswers :: int
  sd_unattempted :: int
  sd_accuracy :: real

text \<open>
  \<^verbatim>\<open>answer.findMany({ where: { attemptId }, include: { question: true } })\<close>: the answers
  of the attempt, each with its question. The question is a required relation, so under
  referential integrity every answer row has one.
\<close>

definition answersWithQuestion :: "Database \<Rightarrow> ident \<Rightarrow> (Answer \<times> Question) list" where
  "answersWithQuestion db attemptId =
     List.map_filter
       (\<lambda>a. map_option (Pair a) (find (\<lambda>q. question_id q = answer_questionId a) (db_questions db)))
       (filter (\<lambda>a. answer_attemptId a = attemptId) (db_answers db))"

text \<open>
  The body of the \<^verbatim>\<open>forEach\<close>: the accumulator is
  \<open>(score, correctAnswers, incorrectAnswers)\<close>. The two \<^verbatim>\<open>if\<close> statements run one
  after the other, the second on what the first left.
\<close>

definition scoreStep :: "Exam \<Rightarrow> Answer \<times> Question \<Rightarrow> real \<times> int \<times> int \<Rightarrow> real \<times> int \<times> int" where
  "scoreStep exam aq acc =
     (case aq of (answer, question) \<Rightarrow>
        (case (if question_type question = MCQ \<and> truthy (answer_selectedOption answer) then
                 (case acc of (score, correctAnswers, incorrectAnswers) \<Rightarrow>
                    (if answer_selectedOption answer = question_correctOption question
                       then (score + orElse (question_marks question) 1,
                             correctAnswers + 1, incorrectAnswers)
                     else ((if exam_negativeMarking exam
                              then score + orElse (exam_incorrectMark exam) 0 else score),
                           correctAnswers, incorrectAnswers + 1)))
               else acc) of
           (score, correctAnswers, incorrectAnswers) \<Rightarrow>
             (case answer_marks answer of
                None \<Rightarrow> (score, correctAnswers, incorrectAnswers)
              | Some m \<Rightarrow>
                  (if question_type question = DESCRIPTIVE then
                     (if question_marks question / 2 \<le> m
                        then (score + m, correctAnswers + 1, incorrectAnswers)
                      else (score + m, correctAnswers, incorrectAnswers + 1))
                   else (score, correctAnswers, incorrectAnswers)))))"

text \<open>
  The body of the \<^verbatim>\<open>try\<close> block. \<open>dbFails\<close> says that a query of the block is
  rejected; the exam handed in is the attempt's \<^verbatim>\<open>exam\<close> relation, whose \<^verbatim>\<open>id\<close> the
  block reads.
\<close>

definition calculateScore_try :: "bool \<Rightarrow> Database \<Rightarrow> Exam option \<Rightarrow> ident \<Rightarrow> error + ScoreData" where
  "calculateScore_try dbFails db exam attemptId =
     (if dbFails then Inl InternalServerError
      else (case exam of
              None \<Rightarrow> Inl InternalServerError
            | Some ex \<Rightarrow>
                (case foldl (\<lambda>acc aq. scoreStep ex aq acc) (0, 0, 0) (answersWithQuestion db attemptId) of
                   (score, correctAnswers, incorrectAnswers) \<Rightarrow>
                     Inr \<lparr> sd_score = max 0 score,
                           sd_correctAnswers = correctAnswers,
                           sd_incorrectAnswers = incorrectAnswers,
                           sd_unattempted =
                             int (length (filter (\<lambda>q. question_examId q = exam_id ex) (db_questions db)))
                             - int (length (filter (\<lambda>a. answer_attemptId a = attemptId) (db_answers db))),
                           sd_accuracy =
                             (if 0 < correctAnswers
                                then (real_of_int correctAnswers
                                      / real_of_int (correctAnswers + incorrectAnswers)) * 100
                              else 0) \<rparr>)))"

text \<open>The \<^verbatim>\<open>catch\<close> logs the error and returns \<^verbatim>\<open>null\<close>.\<close>

definition calculateScore :: "bool \<Rightarrow> Database \<Rightarrow> Exam option \<Rightarrow> ident \<Rightarrow> ScoreData option" where
  "calculateScore dbFails db exam attemptId =
     (case calculateScore_try dbFails db exam attemptId of
        Inl e \<Rightarrow> None
      | Inr d \<Rightarrow> Some d)"

text \<open>
  What the scoring pass adds to the score for a single answer: one step of the loop,
  started from zero.
\<close>

definition scoringContribution :: "Exam \<Rightarrow> Answer \<Rightarrow> Question \<Rightarrow> real" where
  "scoringContribution exam answer question = fst (scoreStep exam (answer, question) (0, 0, 0))"

section \<open>Attempt update: AttemptService.update\<close>

text \<open>
  The \<^verbatim>\<open>data\<close> object a student's request builds, as the change it makes to the stored
  row. \<open>existing\<close> is the row read at the start of the call. Its \<open>maxScore\<close> is the
  \<open>totalMarks\<close> of the exam, which the exam payload requires to be positive; the
  quotient by a zero \<open>maxScore\<close> is not a number in JavaScript and is outside the model.
\<close>

definition studentUpdateData ::
    "ScoreData option \<Rightarrow> date \<Rightarrow> UpdateAttemptDto \<Rightarrow> Attempt \<Rightarrow> Attempt \<Rightarrow> Attempt" where
  "studentUpdateData scoreData now dto existing row =
     (let r1 = (case uad_status dto of
                  None \<Rightarrow> row
                | Some s \<Rightarrow>
                    (if s = SUBMITTED
                       then row\<lparr>attempt_status := s, attempt_submitTime := Some now\<rparr>
                     else if s = COMPLETED
                       then row\<lparr>attempt_status := s, attempt_endTime := Some now\<rparr>
                     else row\<lparr>attempt_status := s\<rparr>));
          r2 = r1\<lparr>attempt_timeSpent := setIfDefined (uad_timeSpent dto) (attempt_timeSpent r1)\<rparr>
      in (if uad_status dto = Some SUBMITTED then
            (case scoreData of
               None \<Rightarrow> r2
             | Some sd \<Rightarrow>
                 r2\<lparr>attempt_score := Some (sd_score sd),
                    attempt_correctAnswers := Some (sd_correctAnswers sd),
                    attempt_incorrectAnswers := Some (sd_incorrectAnswers sd),
                    attempt_unattempted := Some (sd_unattempted sd),
                    attempt_accuracy := Some (sd_accuracy sd),
                    attempt_percentage := Some ((sd_score sd / attempt_maxScore existing) * 100)\<rparr>)
          else r2))"

text \<open>The \<^verbatim>\<open>data\<close> object of a teacher's or admin's request.\<close>

definition teacherUpdateData :: "ident \<Rightarrow> UpdateAttemptDto \<Rightarrow> Attempt \<Rightarrow> Attempt \<Rightarrow> Attempt" where
  "teacherUpdateData userId dto existing row =
     (let r1 = row\<lparr>attempt_evaluationStatus :=
                     setIfDefined (uad_evaluationStatus dto) (attempt_evaluationStatus row),
                   attempt_feedback := setIfDefined (uad_feedback dto) (attempt_feedback row)\<rparr>;
          r2 = (case uad_score dto of
                  None \<Rightarrow> r1
                | Some s \<Rightarrow>
                    r1\<lparr>attempt_score := Some s,
                       attempt_percentage := Some ((s / attempt_maxScore existing) * 100)\<rparr>);
          r3 = (if uad_status dto = Some EVALUATED
                  then r2\<lparr>attempt_status := EVALUATED, attempt_evaluatedBy := Some userId\<rparr>
                else r2)
      in r3\<lparr>attempt_correctAnswers :=
                setIfDefined (uad_correctAnswers dto) (attempt_correctAnswers r3),
             attempt_incorrectAnswers :=
                setIfDefined (uad_incorrectAnswers dto) (attempt_incorrectAnswers r3),
             attempt_unattempted := setIfDefined (uad_unattempted dto) (attempt_unattempted r3),
             attempt_accuracy := setIfDefined (uad_accuracy dto) (attempt_accuracy r3),
             attempt_rank := setIfDefined (uad_rank dto) (attempt_rank r3),
             attempt_answerSheetUrl :=
                setIfDefined (uad_answerSheetUrl dto) (attempt_answerSheetUrl r3)\<rparr>)"

text \<open>
  \<open>scoringFails\<close> is handed to the scoring pass of a submission. A student may set
  the status to \<open>SUBMITTED\<close> or \<open>COMPLETED\<close> only; no branch looks at the status the
  attempt has.
\<close>

definition AttemptService_update ::
    "bool \<Rightarrow> date \<Rightarrow> ident \<Rightarrow> ident \<Rightarrow> UpdateAttemptDto \<Rightarrow> bool \<Rightarrow> Database
      \<Rightarrow> (error + Attempt) \<times> Database" where
  "AttemptService_update scoringFails now i userId dto isTeacher db =
     (case find (\<lambda>a. attempt_id a = i) (db_attempts db) of
        None \<Rightarrow> (Inl NotFoundException, db)
      | Some existing \<Rightarrow>
          (if \<not> isTeacher \<and> attempt_userId existing \<noteq> userId
             then (Inl ForbiddenException, db)
           else if isTeacher
             then (Inr (teacherUpdateData userId dto existing existing),
                   db\<lparr>db_attempts :=
                        updateAttemptRow i (teacherUpdateData userId dto existing) (db_attempts db)\<rparr>)
           else if uad_status dto \<noteq> None \<and> uad_status dto \<noteq> Some SUBMITTED
                   \<and> uad_status dto \<noteq> Some COMPLETED
             then (Inl BadRequestException, db)
           else (let scoreData =
                       (if uad_status dto = Some SUBMITTED
                          then calculateScore scoringFails db
                                 (find (\<lambda>e. exam_id e = attempt_examId existing) (db_exams db)) i
                        else None)
                 in (Inr (studentUpdateData scoreData now dto existing existing),
                     db\<lparr>db_attempts :=
                          updateAttemptRow i (studentUpdateData scoreData now dto existing)
                            (db_attempts db)\<rparr>))))"

section \<open>Answer ledger: AnswerService.create and AnswerService.update\<close>

text \<open>
  The marks computed when an answer is written. The exam is the attempt's required
  \<^verbatim>\<open>exam\<close> relation; it is read only when the first two conjuncts hold.
\<close>

definition writeTimeMarks :: "Exam option \<Rightarrow> Question \<Rightarrow> CreateAnswerDto \<Rightarrow> error + real option" where
  "writeTimeMarks exam question dto =
     (if question_type question = MCQ \<and> truthy (cans_selectedOption dto) then
        (case exam of
           None \<Rightarrow> Inl InternalServerError
         | Some ex \<Rightarrow>
             (if exam_negativeMarking ex then
                (if cans_selectedOption dto = question_correctOption question
                   then Inr (Some (exam_correctMark ex))
                 else Inr (Some (exam_incorrectMark ex)))
              else Inr None))
      else Inr None)"

text \<open>The \<^verbatim>\<open>data\<close> of the update branch: \<^verbatim>\<open>marks\<close> is always written, also as \<^verbatim>\<open>null\<close>.\<close>

definition upsertUpdateData :: "CreateAnswerDto \<Rightarrow> real option \<Rightarrow> Answer \<Rightarrow> Answer" where
  "upsertUpdateData dto marks row =
     row\<lparr>answer_selectedOption := setIfDefined (cans_selectedOption dto) (answer_selectedOption row),
         answer_answerText := setIfDefined (cans_answerText dto) (answer_answerText row),
         answer_timeSpent := setIfDefined (cans_timeSpent dto) (answer_timeSpent row),
         answer_marks := marks\<rparr>"

definition newAnswer :: "ident \<Rightarrow> CreateAnswerDto \<Rightarrow> real option \<Rightarrow> Answer" where
  "newAnswer newId dto marks =
     \<lparr> answer_id = newId,
       answer_attemptId = cans_attemptId dto,
       answer_questionId = cans_questionId dto,
       answer_selectedOption = cans_selectedOption dto,
       answer_answerText = cans_answerText dto,
       answer_timeSpent = cans_timeSpent dto,
       answer_marks = marks,
       answer_feedback = None,
       answer_evaluatedBy = None,
       answer_evaluatedAt = None \<rparr>"

definition AnswerService_create ::
    "ident \<Rightarrow> ident \<Rightarrow> CreateAnswerDto \<Rightarrow> Database \<Rightarrow> (error + Answer) \<times> Database" where
  "AnswerService_create newId userId dto db =
     (case find (\<lambda>a. attempt_id a = cans_attemptId dto) (db_attempts db) of
        None \<Rightarrow> (Inl NotFoundException, db)
      | Some attempt \<Rightarrow>
          (if attempt_userId attempt \<noteq> userId then (Inl ForbiddenException, db)
           else if attempt_status attempt = SUBMITTED \<or> attempt_status attempt = EVALUATED
             then (Inl BadRequestException, db)
           else
             (case find (\<lambda>q. question_id q = cans_questionId dto) (db_questions db) of
                None \<Rightarrow> (Inl NotFoundException, db)
              | Some question \<Rightarrow>
                  (if question_examId question \<noteq> attempt_examId attempt
                     then (Inl BadRequestException, db)
                   else
                     (case writeTimeMarks
                             (find (\<lambda>e. exam_id e = attempt_examId attempt) (db_exams db))
                             question dto of
                        Inl e \<Rightarrow> (Inl e, db)
                      | Inr marks \<Rightarrow>
                          (case find (\<lambda>a. answer_attemptId a = cans_attemptId dto
                                           \<and> answer_questionId a = cans_questionId dto)
                                  (db_answers db) of
                             Some existingAnswer \<Rightarrow>
                               (Inr (upsertUpdateData dto marks existingAnswer),
                                db\<lparr>db_answers :=
                                     map (\<lambda>a. if answer_attemptId a = cans_attemptId dto
                                                  \<and> answer_questionId a = cans_questionId dto
                                               then upsertUpdateData dto marks a else a)
                                       (db_answers db)\<rparr>)
                           | None \<Rightarrow>
                               (Inr (newAnswer newId dto marks),
                                db\<lparr>db_answers := db_answers db @ [newAnswer newId dto marks]\<rparr>)))))))"

text \<open>
  The \<^verbatim>\<open>updateData\<close> of \<^verbatim>\<open>AnswerService.update\<close>. \<open>answer\<close> is the row read at the
  start of the call; \<^verbatim>\<open>(answer.timeSpent || 0)\<close> is zero for a \<^verbatim>\<open>null\<close> column.
\<close>

definition answerUpdateData :: "Question \<Rightarrow> UpdateAnswerDto \<Rightarrow> Answer \<Rightarrow> Answer \<Rightarrow> Answer" where
  "answerUpdateData question dto answer row =
     (let r1 =
        (if question_type question = MCQ then
           (let r = row\<lparr>answer_selectedOption :=
                          setIfDefined (uans_selectedOption dto) (answer_selectedOption row)\<rparr>
            in if truthy (uans_selectedOption dto) \<and> truthy (answer_answerText answer)
                 then r\<lparr>answer_answerText := None\<rparr> else r)
         else if question_type question = DESCRIPTIVE then
           (let r = row\<lparr>answer_answerText :=
                          setIfDefined (uans_answerText dto) (answer_answerText row)\<rparr>
            in if truthy (uans_answerText dto) \<and> truthy (answer_selectedOption answer)
                 then r\<lparr>answer_selectedOption := None\<rparr> else r)
         else row)
      in (case uans_timeSpent dto of
            None \<Rightarrow> r1
          | Some t \<Rightarrow>
              r1\<lparr>answer_timeSpent :=
                    Some ((case answer_timeSpent answer of None \<Rightarrow> 0 | Some old \<Rightarrow> old) + t)\<rparr>))"

definition AnswerService_update ::
    "ident \<Rightarrow> ident \<Rightarrow> UpdateAnswerDto \<Rightarrow> Database \<Rightarrow> (error + Answer) \<times> Database" where
  "AnswerService_update i userId dto db =
     (case find (\<lambda>a. answer_id a = i) (db_answers db) of
        None \<Rightarrow> (Inl NotFoundException, db)
      | Some answer \<Rightarrow>
          (case find (\<lambda>t. attempt_id t = answer_attemptId answer) (db_attempts db) of
             None \<Rightarrow> (Inl InternalServerError, db)
           | Some attempt \<Rightarrow>
               (if attempt_userId attempt \<noteq> userId then (Inl ForbiddenException, db)
                else if attempt_status attempt \<noteq> IN_PROGRESS then (Inl ForbiddenException, db)
                else
                  (case find (\<lambda>q. question_id q = answer_questionId answer) (db_questions db) of
                     None \<Rightarrow> (Inl NotFoundException, db)
                   | Some question \<Rightarrow>
                       (if question_type question = MCQ
                           \<and> (case uans_selectedOption dto of
                                 None \<Rightarrow> False
                               | Some s \<Rightarrow> s \<noteq> [] \<and> s \<notin> set (question_options question))
                          then (Inl BadRequestException, db)
                        else (Inr (answerUpdateData question dto answer answer),
                              db\<lparr>db_answers :=
                                   updateAnswerRow i (answerUpdateData question dto answer)
                                     (db_answers db)\<rparr>))))))"

section \<open>Bulk evaluation: AnswerService.bulkEvaluate\<close>

text \<open>
  \<^verbatim>\<open>prisma.$transaction(async (tx) => ...)\<close>, the interactive transaction of the
  database client: the callback works on the transaction's view of the database; when it
  returns, its writes are committed together, and when it throws, they are rolled back
  and the exception is thrown on.
\<close>

definition transaction ::
    "(Database \<Rightarrow> error + 'r \<times> Database) \<Rightarrow> Database \<Rightarrow> (error + 'r) \<times> Database" where
  "transaction body db =
     (case body db of
        Inl e \<Rightarrow> (Inl e, db)
      | Inr (r, db') \<Rightarrow> (Inr r, db'))"

text \<open>
  A fault plan says which statements of the callback are interrupted: \<open>fault k\<close> holds
  when the \<open>k\<close>-th statement it sends to the database (counted from zero) fails.
  \<open>noFault\<close> is the run without failures.
\<close>

type_synonym fault = "nat \<Rightarrow> bool"

definition noFault :: fault where
  "noFault = (\<lambda>k. False)"

text \<open>
  The \<^verbatim>\<open>data\<close> written to a matched answer. \<open>now\<close> is the clock reading, taken
  as the same for every entry of a call.
\<close>

definition evaluationData :: "ident \<Rightarrow> date \<Rightarrow> Evaluation \<Rightarrow> Answer \<Rightarrow> Answer" where
  "evaluationData teacherId now ev row =
     row\<lparr>answer_marks := Some (ev_marks ev),
         answer_feedback := setIfDefined (ev_feedback ev) (answer_feedback row),
         answer_evaluatedBy := Some teacherId,
         answer_evaluatedAt := Some now\<rparr>"

text \<open>
  The \<^verbatim>\<open>for\<close> loop of the callback. The state is the number of statements sent so
  far, \<^verbatim>\<open>totalMarks\<close>, \<^verbatim>\<open>evaluatedCount\<close> and the answer table as the transaction
  sees it. An entry without an answer row costs the lookup only.
\<close>

fun evaluateEntries ::
    "fault \<Rightarrow> ident \<Rightarrow> ident \<Rightarrow> date \<Rightarrow> Evaluation list \<Rightarrow> nat \<times> real \<times> nat \<times> Answer list
      \<Rightarrow> error + nat \<times> real \<times> nat \<times> Answer list" where
  "evaluateEntries fault attemptId teacherId now [] st = Inr st"
| "evaluateEntries fault attemptId teacherId now (ev # evs) (k, totalMarks, evaluatedCount, rows) =
     (if fault k then Inl InternalServerError
      else
        (case find (\<lambda>a. answer_attemptId a = attemptId \<and> answer_questionId a = ev_questionId ev) rows of
           None \<Rightarrow>
             evaluateEntries fault attemptId teacherId now evs
               (k + 1, totalMarks, evaluatedCount, rows)
         | Some answer \<Rightarrow>
             (if fault (k + 1) then Inl InternalServerError
              else evaluateEntries fault attemptId teacherId now evs
                     (k + 2, totalMarks + ev_marks ev, evaluatedCount + 1,
                      updateAnswerRow (answer_id answer) (evaluationData teacherId now ev) rows))))"

text \<open>The callback: the loop, then the update of the attempt.\<close>

definition bulkEvaluate_body ::
    "fault \<Rightarrow> date \<Rightarrow> ident \<Rightarrow> ident \<Rightarrow> Evaluation list \<Rightarrow> Database \<Rightarrow> error + nat \<times> Database" where
  "bulkEvaluate_body fault now attemptId teacherId evaluations tx =
     (case evaluateEntries fault attemptId teacherId now evaluations (0, 0, 0, db_answers tx) of
        Inl e \<Rightarrow> Inl e
      | Inr (k, totalMarks, evaluatedCount, rows) \<Rightarrow>
          (if fault k then Inl InternalServerError
           else Inr (evaluatedCount,
                     tx\<lparr>db_answers := rows,
                        db_attempts :=
                          updateAttemptRow attemptId
                            (\<lambda>a. a\<lparr>attempt_status := EVALUATED,
                                   attempt_score := Some totalMarks,
                                   attempt_evaluatedBy := Some teacherId\<rparr>)
                            (db_attempts tx)\<rparr>)))"

definition bulkEvaluate ::
    "fault \<Rightarrow> date \<Rightarrow> ident \<Rightarrow> ident \<Rightarrow> Evaluation list \<Rightarrow> Database \<Rightarrow> (error + nat) \<times> Database" where
  "bulkEvaluate fault now attemptId teacherId evaluations db =
     (case find (\<lambda>a. attempt_id a = attemptId) (db_attempts db) of
        None \<Rightarrow> (Inl NotFoundException, db)
      | Some attempt \<Rightarrow>
          (case find (\<lambda>e. exam_id e = attempt_examId attempt) (db_exams db) of
             None \<Rightarrow> (Inl InternalServerError, db)
           | Some exam \<Rightarrow>
               (if exam_teacherId exam \<noteq> teacherId then (Inl ForbiddenException, db)
                else transaction (bulkEvaluate_body fault now attemptId teacherId evaluations) db)))"

section \<open>Bulk evaluation in the words of its description\<close>

text \<open>
  An answer row is identified by its attempt and its question (the unique key the loop
  looks rows up by). An entry is matched when the attempt has an answer to its question;
  \<open>evaluateRow\<close> is what one entry does to one row, and \<open>entriesFor\<close> are the entries
  addressed to the question of a row.
\<close>

definition answerKey :: "Answer \<Rightarrow> ident \<times> ident" where
  "answerKey a = (answer_attemptId a, answer_questionId a)"

definition entryMatches :: "ident \<Rightarrow> Answer list \<Rightarrow> Evaluation \<Rightarrow> bool" where
  "entryMatches attemptId rows ev =
     list_ex (\<lambda>a. answer_attemptId a = attemptId \<and> answer_questionId a = ev_questionId ev) rows"

definition matchedEntries :: "ident \<Rightarrow> Answer list \<Rightarrow> Evaluation list \<Rightarrow> Evaluation list" where
  "matchedEntries attemptId rows evs = filter (entryMatches attemptId rows) evs"

definition entriesFor :: "Answer \<Rightarrow> Evaluation list \<Rightarrow> Evaluation list" where
  "entriesFor a evs = filter (\<lambda>ev. ev_questionId ev = answer_questionId a) evs"

definition evaluateRow :: "ident \<Rightarrow> ident \<Rightarrow> date \<Rightarrow> Evaluation \<Rightarrow> Answer \<Rightarrow> Answer" where
  "evaluateRow attemptId teacherId now ev a =
     (if answer_attemptId a = attemptId \<and> answer_questionId a = ev_questionId ev
        then evaluationData teacherId now ev a else a)"

section \<open>Sample data\<close>

text \<open>
  One exam with negative marking (two marks for a correct choice by the exam's scheme,
  minus one for a wrong one), owned by teacher \<open>t1\<close>; a multiple-choice question worth
  one mark and a descriptive question worth ten; a purchase of the exam by student
  \<open>u1\<close> that was valid until instant 1000; and an attempt of \<open>u1\<close> in progress.
\<close>

definition exam1 :: Exam where
  "exam1 = \<lparr> exam_id = ''e1'', exam_isActive = True, exam_isFree = False, exam_totalMarks = 10,
              exam_negativeMarking = True, exam_correctMark = 2, exam_incorrectMark = - 1,
              exam_teacherId = ''t1'', exam_testSeriesId = Some ''ts1'' \<rparr>"

definition question1 :: Question where
  "question1 = \<lparr> question_id = ''q1'', question_examId = ''e1'', question_type = MCQ,
                  question_options = [''a'', ''b'', ''c'', ''d''],
                  question_correctOption = Some ''a'', question_marks = 1 \<rparr>"

definition question2 :: Question where
  "question2 = \<lparr> question_id = ''q2'', question_examId = ''e1'', question_type = DESCRIPTIVE,
                  question_options = [], question_correctOption = None, question_marks = 10 \<rparr>"

definition expiredPurchase :: Purchase where
  "expiredPurchase = \<lparr> purchase_id = ''p1'', purchase_userId = ''u1'',
              purchase_status = PURCHASE_COMPLETED, purchase_type = INDIVIDUAL_EXAM,
              purchase_examId = Some ''e1'', purchase_testSeriesId = None,
              purchase_validTill = 1000 \<rparr>"

definition attempt1 :: Attempt where
  "attempt1 = \<lparr> attempt_id = ''a1'', attempt_userId = ''u1'', attempt_examId = ''e1'',
       attempt_status = IN_PROGRESS, attempt_startTime = Some 0, attempt_submitTime = None,
       attempt_endTime = None, attempt_maxScore = 10, attempt_score = None,
       attempt_percentage = None, attempt_correctAnswers = None,
       attempt_incorrectAnswers = None, attempt_unattempted = None, attempt_accuracy = None,
       attempt_rank = None, attempt_timeSpent = None, attempt_answerSheetUrl = None,
       attempt_evaluationStatus = None, attempt_evaluatedBy = None, attempt_feedback = None \<rparr>"

definition answer1 :: Answer where
  "answer1 = \<lparr> answer_id = ''n1'', answer_attemptId = ''a1'', answer_questionId = ''q1'',
       answer_selectedOption = Some ''b'', answer_answerText = None,
       answer_timeSpent = Some 30, answer_marks = Some (- 1), answer_feedback = None,
       answer_evaluatedBy = None, answer_evaluatedAt = None \<rparr>"

definition answer2 :: Answer where
  "answer2 = \<lparr> answer_id = ''n2'', answer_attemptId = ''a1'', answer_questionId = ''q2'',
       answer_selectedOption = None, answer_answerText = Some ''essay'',
       answer_timeSpent = Some 30, answer_marks = None, answer_feedback = None,
       answer_evaluatedBy = None, answer_evaluatedAt = None \<rparr>"

text \<open>The exam and the purchase, before any attempt.\<close>

definition dbPurchased :: Database where
  "dbPurchased = \<lparr> db_exams = [exam1], db_questions = [question1, question2],
                    db_purchases = [expiredPurchase], db_attempts = [], db_answers = [] \<rparr>"

text \<open>The attempt in progress, without answers and with both questions answered.\<close>

definition dbInProgress :: Database where
  "dbInProgress = dbPurchased\<lparr>db_attempts := [attempt1]\<rparr>"

definition dbAnswered :: Database where
  "dbAnswered = dbInProgress\<lparr>db_answers := [answer1, answer2]\<rparr>"

definition dtoPlain :: CreateAttemptDto where
  "dtoPlain = \<lparr> cad_examId = ''e1'', cad_status = None, cad_timeSpent = None \<rparr>"

definition dtoSubmitted :: CreateAttemptDto where
  "dtoSubmitted = \<lparr> cad_examId = ''e1'', cad_status = Some SUBMITTED, cad_timeSpent = None \<rparr>"

text \<open>An answer to the multiple-choice question, thirty seconds spent.\<close>

definition answerDto :: "string \<Rightarrow> CreateAnswerDto" where
  "answerDto opt = \<lparr> cans_attemptId = ''a1'', cans_questionId = ''q1'',
                      cans_selectedOption = Some opt, cans_answerText = None,
                      cans_timeSpent = Some 30 \<rparr>"

text \<open>A request that changes the status of an attempt and nothing else.\<close>

definition statusDto :: "AttemptStatus \<Rightarrow> UpdateAttemptDto" where
  "statusDto s = \<lparr> uad_status = Some s, uad_timeSpent = None, uad_score = None,
                    uad_evaluationStatus = None, uad_feedback = None,
                    uad_correctAnswers = None, uad_incorrectAnswers = None,
                    uad_unattempted = None, uad_accuracy = None, uad_rank = None,
                    uad_answerSheetUrl = None \<rparr>"

text \<open>A revision of an answer that reports thirty more seconds.\<close>

definition timeDto :: UpdateAnswerDto where
  "timeDto = \<lparr> uans_selectedOption = None, uans_answerText = None, uans_timeSpent = Some 30 \<rparr>"

text \<open>
  A batch of evaluations: seven marks for the descriptive answer, and an entry for a
  question \<open>q9\<close> the attempt has no answer to.
\<close>

definition evaluations1 :: "Evaluation list" where
  "evaluations1 = [\<lparr> ev_questionId = ''q2'', ev_marks = 7, ev_feedback = Some ''good'' \<rparr>,
                   \<lparr> ev_questionId = ''q9'', ev_marks = 3, ev_feedback = None \<rparr>]"

text \<open>
  The attempt after the student has submitted it at instant 100: the wrong choice costs
  one mark, the total is raised to zero, and nothing is graded yet.
\<close>

definition attemptSubmitted :: Attempt where
  "attemptSubmitted = attempt1\<lparr>attempt_status := SUBMITTED, attempt_submitTime := Some 100,
       attempt_score := Some 0, attempt_percentage := Some 0, attempt_correctAnswers := Some 0,
       attempt_incorrectAnswers := Some 1, attempt_unattempted := Some 0,
       attempt_accuracy := Some 0\<rparr>"

definition dbSubmitted :: Database where
  "dbSubmitted = dbAnswered\<lparr>db_attempts := [attemptSubmitted]\<rparr>"

text \<open>
  A batch with an entry for each of the two answers, and the fault plan that interrupts
  exactly the statement with a given index.
\<close>

definition evaluations2 :: "Evaluation list" where
  "evaluations2 = [\<lparr> ev_questionId = ''q1'', ev_marks = 1, ev_feedback = None \<rparr>,
                   \<lparr> ev_questionId = ''q2'', ev_marks = 7, ev_feedback = Some ''good'' \<rparr>]"

definition faultAt :: "nat \<Rightarrow> fault" where
  "faultAt n = (\<lambda>k. k = n)"

text \<open>The attempt after the student has marked it completed at instant 50.\<close>

definition attemptCompleted :: Attempt where
  "attemptCompleted = attempt1\<lparr>attempt_status := COMPLETED, attempt_endTime := Some 50\<rparr>"

definition dbCompleted :: Database where
  "dbCompleted = dbAnswered\<lparr>db_attempts := [attemptCompleted]\<rparr>"

section \<open>Auxiliary facts\<close>

lemmas sample_defs = exam1_def question1_def question2_def expiredPurchase_def attempt1_def
  answer1_def answer2_def dbPurchased_def dbInProgress_def dbAnswered_def dtoPlain_def
  dtoSubmitted_def answerDto_def statusDto_def timeDto_def evaluations1_def
  attemptSubmitted_def dbSubmitted_def evaluations2_def
  attemptCompleted_def dbCompleted_def

lemmas score_defs = calculateScore_def calculateScore_try_def answersWithQuestion_def
  scoreStep_def scoringContribution_def orElse_def truthy_def

lemmas answer_defs = AnswerService_create_def writeTimeMarks_def newAnswer_def
  upsertUpdateData_def setIfDefined_def truthy_def

lemma find_SomeD: "find P xs = Some x \<Longrightarrow> P x \<and> x \<in> set xs"
  by (auto simp: find_Some_iff)

lemma find_None_list_ex: "(find P xs = None) = (\<not> list_ex P xs)"
  by (auto simp: find_None_iff list_ex_iff)

lemma find_updateAttemptRow:
  "find (\<lambda>a. attempt_id a = i) rows = Some x \<Longrightarrow> attempt_id (f x) = attempt_id x \<Longrightarrow>
     find (\<lambda>a. attempt_id a = i) (updateAttemptRow i f rows) = Some (f x)"
  by (induction rows) (auto simp: updateAttemptRow_def split: if_splits)

text \<open>
  The row a key finds after the rows with that key were rewritten, and after a row with
  a key not yet present was appended.
\<close>

lemma find_rewritten_row:
  "find P rows = Some x \<Longrightarrow> P (f x) \<Longrightarrow>
     find P (map (\<lambda>a. if P a then f a else a) rows) = Some (f x)"
  by (induction rows) (auto split: if_splits)

lemma find_appended_row:
  "find P rows = None \<Longrightarrow> P y \<Longrightarrow> find P (rows @ [y]) = Some y"
  by (induction rows) (auto split: if_splits)

section \<open>Entitlement and attempt creation\<close>

text \<open>
  Claim C1. The entitlement check should grant access to a non-free exam exactly when a
  completed purchase that has not expired covers the exam or its test series.
  \<open>checkExamAccess\<close> never reads \<open>validTill\<close>: at instant 2000 a completed purchase
  that ended at 1000 still grants access, and the attempt is created, while the rule as
  specified denies it. (The purchase checks of the test-series service do filter on
  \<^verbatim>\<open>validTill: { gte: new Date() }\<close>.)
\<close>

theorem checkExamAccess_ignores_expiry:
  "purchase_validTill expiredPurchase < 2000
   \<and> checkExamAccess dbPurchased ''u1'' ''e1'' False
   \<and> \<not> hasAccess_spec 2000 dbPurchased ''u1'' ''e1'' False
   \<and> fst (AttemptService_create 2000 ''a2'' ''u1'' dtoPlain dbPurchased)
       = Inr (newAttempt 2000 ''a2'' ''u1'' dtoPlain exam1)"
  by (simp add: sample_defs checkExamAccess_def hasAccess_spec_def AttemptService_create_def)

text \<open>
  Claim C2, as stated: whatever the payload, a created attempt is \<open>IN_PROGRESS\<close>. The
  payload may carry a status (\<^verbatim>\<open>CreateAttemptDto.status\<close>), and the insert stores
  \<^verbatim>\<open>createAttemptDto.status || AttemptStatus.IN_PROGRESS\<close>: a payload with status
  \<open>SUBMITTED\<close> creates a submitted attempt.
\<close>

theorem create_status_counterexample:
  "fst (AttemptService_create 0 ''a2'' ''u1'' dtoSubmitted dbPurchased)
     = Inr (newAttempt 0 ''a2'' ''u1'' dtoSubmitted exam1)
   \<and> attempt_status (newAttempt 0 ''a2'' ''u1'' dtoSubmitted exam1) = SUBMITTED
   \<and> attempt_status (newAttempt 0 ''a2'' ''u1'' dtoSubmitted exam1) \<noteq> IN_PROGRESS"
  by (simp add: sample_defs checkExamAccess_def AttemptService_create_def newAttempt_def)

text \<open>
  Claim C2, amended: the attempt returned by a successful creation has the status the
  payload carries, and \<open>IN_PROGRESS\<close> when the payload carries none.
\<close>

theorem create_status_from_payload:
  "fst (AttemptService_create now newId userId dto db) = Inr a \<Longrightarrow>
     attempt_status a = (case cad_status dto of None \<Rightarrow> IN_PROGRESS | Some s \<Rightarrow> s)"
  by (auto simp: AttemptService_create_def newAttempt_def split: option.splits if_splits)

theorem create_status_from_payload_witness:
  "fst (AttemptService_create 0 ''a2'' ''u1'' dtoPlain dbPurchased)
     = Inr (newAttempt 0 ''a2'' ''u1'' dtoPlain exam1)
   \<and> attempt_status (newAttempt 0 ''a2'' ''u1'' dtoPlain exam1) = IN_PROGRESS"
proof -
  have h: "fst (AttemptService_create 0 ''a2'' ''u1'' dtoPlain dbPurchased)
     = Inr (newAttempt 0 ''a2'' ''u1'' dtoPlain exam1)"
    by (simp add: sample_defs checkExamAccess_def AttemptService_create_def)
  from create_status_from_payload [OF h] h show ?thesis
    by (simp add: dtoPlain_def)
qed

text \<open>
  Claim C5, as stated: creating an attempt while one of the same student for the same
  exam is in progress fails with a Conflict error. The service throws
  \<^verbatim>\<open>BadRequestException\<close> (HTTP 400) there, not a conflict (HTTP 409).
\<close>

theorem create_conflict_counterexample:
  "find (\<lambda>a. attempt_userId a = ''u1'' \<and> attempt_examId a = ''e1'' \<and> attempt_status a = IN_PROGRESS)
        (db_attempts dbInProgress) = Some attempt1
   \<and> fst (AttemptService_create 0 ''a2'' ''u1'' dtoPlain dbInProgress) = Inl BadRequestException
   \<and> fst (AttemptService_create 0 ''a2'' ''u1'' dtoPlain dbInProgress) \<noteq> Inl ConflictException"
  by (simp add: sample_defs checkExamAccess_def AttemptService_create_def)

text \<open>
  Claim C5, amended: when the student has an attempt in progress for the exam, creation
  fails and the database is left as it was. The error is \<open>BadRequestException\<close> when
  the exam is active and the student has access; a missing or inactive exam
  (\<open>NotFoundException\<close>) and a missing entitlement (\<open>ForbiddenException\<close>) are
  reported first.
\<close>

theorem create_in_progress_rejected:
  assumes "find (\<lambda>a. attempt_userId a = userId \<and> attempt_examId a = cad_examId dto
                      \<and> attempt_status a = IN_PROGRESS) (db_attempts db) \<noteq> None"
  shows "snd (AttemptService_create now newId userId dto db) = db
       \<and> fst (AttemptService_create now newId userId dto db) =
           (case find (\<lambda>e. exam_id e = cad_examId dto \<and> exam_isActive e) (db_exams db) of
              None \<Rightarrow> Inl NotFoundException
            | Some exam \<Rightarrow>
                if checkExamAccess db userId (cad_examId dto) (exam_isFree exam)
                  then Inl BadRequestException else Inl ForbiddenException)"
proof (cases "find (\<lambda>e. exam_id e = cad_examId dto \<and> exam_isActive e) (db_exams db)")
  case None
  then show ?thesis by (simp add: AttemptService_create_def)
next
  case (Some exam)
  then have "exam_id exam = cad_examId dto" by (auto dest: find_SomeD)
  with Some assms show ?thesis by (simp add: AttemptService_create_def)
qed

theorem create_in_progress_rejected_witness:
  "find (\<lambda>a. attempt_userId a = ''u1'' \<and> attempt_examId a = cad_examId dtoPlain
               \<and> attempt_status a = IN_PROGRESS) (db_attempts dbInProgress) \<noteq> None
   \<and> snd (AttemptService_create 0 ''a2'' ''u1'' dtoPlain dbInProgress) = dbInProgress
   \<and> fst (AttemptService_create 0 ''a2'' ''u1'' dtoPlain dbInProgress) = Inl BadRequestException"
proof -
  have h: "find (\<lambda>a. attempt_userId a = ''u1'' \<and> attempt_examId a = cad_examId dtoPlain
               \<and> attempt_status a = IN_PROGRESS) (db_attempts dbInProgress) \<noteq> None"
    by (simp add: sample_defs)
  from create_in_progress_rejected [OF h, of 0 "''a2''"] h show ?thesis
    by (simp add: sample_defs checkExamAccess_def)
qed

section \<open>Marks at write time and at submission\<close>

lemma create_correct_answer:
  "AnswerService_create ''n1'' ''u1'' (answerDto ''a'') dbInProgress
     = (Inr (newAnswer ''n1'' (answerDto ''a'') (Some 2)),
        dbInProgress\<lparr>db_answers := [newAnswer ''n1'' (answerDto ''a'') (Some 2)]\<rparr>)"
  by (simp add: sample_defs answer_defs)

lemma create_wrong_answer:
  "AnswerService_create ''n1'' ''u1'' (answerDto ''b'') dbInProgress
     = (Inr (newAnswer ''n1'' (answerDto ''b'') (Some (- 1))),
        dbInProgress\<lparr>db_answers := [newAnswer ''n1'' (answerDto ''b'') (Some (- 1))]\<rparr>)"
  by (simp add: sample_defs answer_defs)

text \<open>
  Claim C3, as stated: on an exam with negative marking the marks stored when a
  multiple-choice answer is written equal what the scoring pass adds for that answer,
  for a correct and for a wrong choice. For the correct choice the write stores the
  exam's \<open>correctMark\<close> (two), while the scoring pass adds the question's own marks
  (one): the stored marks are two and the submitted score is one.
\<close>

theorem marks_agreement_counterexample:
  "fst (AnswerService_create ''n1'' ''u1'' (answerDto ''a'') dbInProgress)
     = Inr (newAnswer ''n1'' (answerDto ''a'') (Some 2))
   \<and> answer_marks (newAnswer ''n1'' (answerDto ''a'') (Some 2)) = Some 2
   \<and> scoringContribution exam1 (newAnswer ''n1'' (answerDto ''a'') (Some 2)) question1 = 1
   \<and> map_option sd_score
        (calculateScore False (snd (AnswerService_create ''n1'' ''u1'' (answerDto ''a'') dbInProgress))
           (Some exam1) ''a1'') = Some 1"
  unfolding create_correct_answer
  by (simp add: sample_defs newAnswer_def score_defs)

text \<open>
  A write without a choice to an answer that has one: the stored choice stays, and the
  marks are written as \<^verbatim>\<open>null\<close>.
\<close>

lemma upsert_without_choice:
  "AnswerService_create ''n9'' ''u1'' ((answerDto ''x'')\<lparr>cans_selectedOption := None\<rparr>) dbAnswered
     = (Inr (answer1\<lparr>answer_marks := None\<rparr>),
        dbAnswered\<lparr>db_answers := [answer1\<lparr>answer_marks := None\<rparr>, answer2]\<rparr>)"
  by (simp add: sample_defs answer_defs)

text \<open>
  Claim C3, amended: for every successful write of an answer to a multiple-choice
  question through \<^verbatim>\<open>AnswerService.create\<close> on an exam with negative marking. When
  the request carries a choice (a non-empty \<open>selectedOption\<close>), a wrong choice stores
  the exam's \<open>incorrectMark\<close>, which is also what the scoring pass adds for the answer;
  a correct choice stores the exam's \<open>correctMark\<close>, while the scoring pass adds the
  question's marks (one when they are zero). When the request carries no choice, the
  marks are stored as \<^verbatim>\<open>null\<close>. So the stored marks equal the contribution of the
  scoring pass exactly when the request carries a choice and either the choice is wrong
  or \<open>correctMark\<close> equals the question's marks (one when they are zero).
\<close>

theorem write_time_marks_vs_scoring:
  assumes ok: "fst (AnswerService_create newId userId dto db) = Inr a"
    and att: "find (\<lambda>t. attempt_id t = cans_attemptId dto) (db_attempts db) = Some attempt"
    and ex: "find (\<lambda>e. exam_id e = attempt_examId attempt) (db_exams db) = Some exam"
    and q: "find (\<lambda>q. question_id q = cans_questionId dto) (db_questions db) = Some question"
    and mcq: "question_type question = MCQ"
    and neg: "exam_negativeMarking exam"
  shows "(if truthy (cans_selectedOption dto)
            then answer_selectedOption a = cans_selectedOption dto
               \<and> (if cans_selectedOption dto = question_correctOption question
                    then answer_marks a = Some (exam_correctMark exam)
                       \<and> scoringContribution exam a question = orElse (question_marks question) 1
                    else answer_marks a = Some (exam_incorrectMark exam)
                       \<and> scoringContribution exam a question = exam_incorrectMark exam)
          else answer_marks a = None)
       \<and> ((answer_marks a = Some (scoringContribution exam a question))
            = (truthy (cans_selectedOption dto)
               \<and> (cans_selectedOption dto \<noteq> question_correctOption question
                  \<or> exam_correctMark exam = orElse (question_marks question) 1)))"
  using assms
  by (auto simp: AnswerService_create_def writeTimeMarks_def newAnswer_def upsertUpdateData_def
        setIfDefined_def truthy_def scoringContribution_def scoreStep_def orElse_def
      split: if_splits option.splits sum.splits)

theorem write_time_marks_vs_scoring_witness:
  "fst (AnswerService_create ''n1'' ''u1'' (answerDto ''b'') dbInProgress)
     = Inr (newAnswer ''n1'' (answerDto ''b'') (Some (- 1)))
   \<and> find (\<lambda>t. attempt_id t = cans_attemptId (answerDto ''b'')) (db_attempts dbInProgress) = Some attempt1
   \<and> find (\<lambda>e. exam_id e = attempt_examId attempt1) (db_exams dbInProgress) = Some exam1
   \<and> find (\<lambda>q. question_id q = cans_questionId (answerDto ''b'')) (db_questions dbInProgress) = Some question1
   \<and> question_type question1 = MCQ \<and> exam_negativeMarking exam1
   \<and> truthy (cans_selectedOption (answerDto ''b''))
   \<and> answer_marks (newAnswer ''n1'' (answerDto ''b'') (Some (- 1))) = Some (- 1)
   \<and> scoringContribution exam1 (newAnswer ''n1'' (answerDto ''b'') (Some (- 1))) question1 = - 1
   \<and> fst (AnswerService_create ''n9'' ''u1'' ((answerDto ''x'')\<lparr>cans_selectedOption := None\<rparr>) dbAnswered)
       = Inr (answer1\<lparr>answer_marks := None\<rparr>)
   \<and> answer_marks (answer1\<lparr>answer_marks := None\<rparr>) = None
   \<and> scoringContribution exam1 (answer1\<lparr>answer_marks := None\<rparr>) question1 = - 1"
proof -
  have ok: "fst (AnswerService_create ''n1'' ''u1'' (answerDto ''b'') dbInProgress)
     = Inr (newAnswer ''n1'' (answerDto ''b'') (Some (- 1)))"
    by (simp add: create_wrong_answer)
  have att: "find (\<lambda>t. attempt_id t = cans_attemptId (answerDto ''b'')) (db_attempts dbInProgress) = Some attempt1"
    by (simp add: sample_defs)
  have ex: "find (\<lambda>e. exam_id e = attempt_examId attempt1) (db_exams dbInProgress) = Some exam1"
    by (simp add: sample_defs)
  have q: "find (\<lambda>q. question_id q = cans_questionId (answerDto ''b'')) (db_questions dbInProgress) = Some question1"
    by (simp add: sample_defs)
  have mcq: "question_type question1 = MCQ" and neg: "exam_negativeMarking exam1"
    and sel: "truthy (cans_selectedOption (answerDto ''b''))"
    by (simp_all add: sample_defs truthy_def)
  have ne: "cans_selectedOption (answerDto ''b'') \<noteq> question_correctOption question1"
    by (simp add: sample_defs)
  from write_time_marks_vs_scoring [OF ok att ex q mcq neg] sel ne
  have "answer_marks (newAnswer ''n1'' (answerDto ''b'') (Some (- 1))) = Some (exam_incorrectMark exam1)
      \<and> scoringContribution exam1 (newAnswer ''n1'' (answerDto ''b'') (Some (- 1))) question1
          = exam_incorrectMark exam1"
    by simp
  then have wrong: "answer_marks (newAnswer ''n1'' (answerDto ''b'') (Some (- 1))) = Some (- 1)
      \<and> scoringContribution exam1 (newAnswer ''n1'' (answerDto ''b'') (Some (- 1))) question1 = - 1"
    by (simp add: exam1_def)
  have ok': "fst (AnswerService_create ''n9'' ''u1''
                    ((answerDto ''x'')\<lparr>cans_selectedOption := None\<rparr>) dbAnswered)
       = Inr (answer1\<lparr>answer_marks := None\<rparr>)"
    by (simp add: upsert_without_choice)
  have none: "answer_marks (answer1\<lparr>answer_marks := None\<rparr>) = None"
    and contrib: "scoringContribution exam1 (answer1\<lparr>answer_marks := None\<rparr>) question1 = - 1"
    by (simp_all add: sample_defs score_defs)
  from ok att ex q mcq neg sel wrong ok' none contrib show ?thesis by simp
qed

section \<open>Percentage and time spent\<close>

text \<open>
  The two writers of the score in \<^verbatim>\<open>AttemptService.update\<close> store the percentage
  with it: the student's submission when scoring returns a result, and the teacher's
  update when the request carries a score.
\<close>

lemma submit_writes_percentage:
  assumes att: "find (\<lambda>a. attempt_id a = i) (db_attempts db) = Some existing"
    and own: "attempt_userId existing = userId"
    and sub: "uad_status dto = Some SUBMITTED"
    and scored: "calculateScore scoringFails db
                   (find (\<lambda>e. exam_id e = attempt_examId existing) (db_exams db)) i = Some sd"
    and ok: "fst (AttemptService_update scoringFails now i userId dto False db) = Inr r"
  shows "attempt_score r = Some (sd_score sd)
       \<and> attempt_maxScore r = attempt_maxScore existing
       \<and> attempt_percentage r = Some ((sd_score sd / attempt_maxScore r) * 100)"
  using assms by (auto simp: AttemptService_update_def studentUpdateData_def Let_def)

lemma teacher_score_writes_percentage:
  assumes att: "find (\<lambda>a. attempt_id a = i) (db_attempts db) = Some existing"
    and sc: "uad_score dto = Some s"
    and ok: "fst (AttemptService_update scoringFails now i userId dto True db) = Inr r"
  shows "attempt_score r = Some s
       \<and> attempt_maxScore r = attempt_maxScore existing
       \<and> attempt_percentage r = Some ((s / attempt_maxScore r) * 100)"
  using assms by (auto simp: AttemptService_update_def teacherUpdateData_def Let_def)

text \<open>\<^verbatim>\<open>AnswerService.update\<close> adds the reported time to the time stored.\<close>

lemma update_accumulates_timeSpent:
  assumes ok: "fst (AnswerService_update i userId dto db) = Inr r"
    and ans: "find (\<lambda>a. answer_id a = i) (db_answers db) = Some answer"
    and t: "uans_timeSpent dto = Some t"
  shows "answer_timeSpent r
           = Some ((case answer_timeSpent answer of None \<Rightarrow> 0 | Some old \<Rightarrow> old) + t)"
  using assms
  by (auto simp: AnswerService_update_def answerUpdateData_def Let_def
      split: option.splits if_splits)

lemma submit_sample:
  "AttemptService_update False 100 ''a1'' ''u1'' (statusDto SUBMITTED) False dbAnswered
     = (Inr attemptSubmitted, dbSubmitted)"
  by (simp add: sample_defs attemptSubmitted_def dbSubmitted_def evaluations2_def
  attemptCompleted_def dbCompleted_def AttemptService_update_def
      studentUpdateData_def updateAttemptRow_def setIfDefined_def score_defs)

lemma bulk_sample:
  "db_attempts (snd (bulkEvaluate noFault 200 ''a1'' ''t1'' evaluations1 dbSubmitted))
     = [attemptSubmitted\<lparr>attempt_status := EVALUATED, attempt_score := Some 7,
                          attempt_evaluatedBy := Some ''t1''\<rparr>]"
  by (simp add: sample_defs attemptSubmitted_def dbSubmitted_def evaluations2_def
  attemptCompleted_def dbCompleted_def bulkEvaluate_def
      bulkEvaluate_body_def transaction_def noFault_def updateAttemptRow_def
      updateAnswerRow_def evaluationData_def)

text \<open>
  Claim C4. After every operation that writes the score, the stored percentage should
  be the score over the maximum score times one hundred. The student's submission and
  the teacher's update write both columns together; bulk evaluation writes the score and
  leaves the percentage. The sample attempt is submitted with score and percentage zero;
  after a bulk evaluation that awards seven marks out of ten the score is seven and the
  percentage still zero, not seventy.
\<close>

theorem bulkEvaluate_stale_percentage:
  "snd (AttemptService_update False 100 ''a1'' ''u1'' (statusDto SUBMITTED) False dbAnswered) = dbSubmitted
   \<and> map (\<lambda>a. (attempt_score a, attempt_maxScore a, attempt_percentage a)) (db_attempts dbSubmitted)
       = [(Some 0, 10, Some 0)]
   \<and> map (\<lambda>a. (attempt_score a, attempt_maxScore a, attempt_percentage a))
         (db_attempts (snd (bulkEvaluate noFault 200 ''a1'' ''t1'' evaluations1 dbSubmitted)))
       = [(Some 7, 10, Some 0)]
   \<and> (7 / 10) * 100 \<noteq> (0 :: real)"
  unfolding submit_sample bulk_sample
  by (simp add: sample_defs attemptSubmitted_def dbSubmitted_def evaluations2_def
  attemptCompleted_def dbCompleted_def)

text \<open>
  Claim C6. Time reported by the student should be added to the time stored, on the
  upsert path as on the update path. The stored answer carries thirty seconds and the
  request reports thirty more: \<^verbatim>\<open>AnswerService.update\<close> stores sixty, while the update
  branch of \<^verbatim>\<open>AnswerService.create\<close> writes the reported value over the stored one
  and leaves thirty.
\<close>

theorem upsert_replaces_timeSpent:
  "map answer_timeSpent (db_answers dbAnswered) = [Some 30, Some 30]
   \<and> map answer_timeSpent
        (db_answers (snd (AnswerService_create ''n9'' ''u1'' (answerDto ''b'') dbAnswered)))
       = [Some 30, Some 30]
   \<and> map answer_timeSpent
        (db_answers (snd (AnswerService_update ''n1'' ''u1'' timeDto dbAnswered)))
       = [Some 60, Some 30]"
  by (simp add: sample_defs answer_defs AnswerService_update_def answerUpdateData_def
      updateAnswerRow_def)

section \<open>Bulk evaluation\<close>

text \<open>
  An entry changes neither the identifier nor the key of a row, so the entries that are
  matched are the same against the table at any point of the loop.
\<close>

lemma evaluateRow_key [simp]: "answerKey (evaluateRow attemptId teacherId now ev a) = answerKey a"
  by (simp add: evaluateRow_def evaluationData_def answerKey_def)

lemma evaluateRow_id [simp]: "answer_id (evaluateRow attemptId teacherId now ev a) = answer_id a"
  by (simp add: evaluateRow_def evaluationData_def)

lemma entryMatches_keys:
  "entryMatches attemptId rows ev = ((attemptId, ev_questionId ev) \<in> set (map answerKey rows))"
  by (auto simp: entryMatches_def list_ex_iff answerKey_def)

lemma matchedEntries_cong:
  "map answerKey rows' = map answerKey rows \<Longrightarrow>
     matchedEntries attemptId rows' evs = matchedEntries attemptId rows evs"
proof -
  assume eq: "map answerKey rows' = map answerKey rows"
  have "entryMatches attemptId rows' ev = entryMatches attemptId rows ev" for ev
    by (simp only: entryMatches_keys eq)
  then have "entryMatches attemptId rows' = entryMatches attemptId rows"
    by (rule ext)
  then show ?thesis by (simp only: matchedEntries_def)
qed

text \<open>
  With identifiers and keys unique, the update by identifier of the row found by key
  rewrites exactly the rows with that key.
\<close>

lemma update_found_row:
  assumes ids: "distinct (map answer_id rows)"
    and keys: "distinct (map answerKey rows)"
    and found: "find (\<lambda>a. answer_attemptId a = attemptId \<and> answer_questionId a = ev_questionId ev) rows
                  = Some answer"
  shows "updateAnswerRow (answer_id answer) (evaluationData teacherId now ev) rows
           = map (evaluateRow attemptId teacherId now ev) rows"
proof -
  from found have mem: "answer \<in> set rows"
    and key: "answerKey answer = (attemptId, ev_questionId ev)"
    by (auto dest: find_SomeD simp: answerKey_def)
  have "answer_id a = answer_id answer \<longleftrightarrow> answerKey a = (attemptId, ev_questionId ev)"
    if "a \<in> set rows" for a
  proof
    assume "answer_id a = answer_id answer"
    moreover from ids have "inj_on answer_id (set rows)" by (simp add: distinct_map)
    ultimately have "a = answer" using that mem by (simp add: inj_on_def)
    with key show "answerKey a = (attemptId, ev_questionId ev)" by simp
  next
    assume "answerKey a = (attemptId, ev_questionId ev)"
    with key have "answerKey a = answerKey answer" by simp
    moreover from keys have "inj_on answerKey (set rows)" by (simp add: distinct_map)
    ultimately have "a = answer" using that mem by (simp add: inj_on_def)
    then show "answer_id a = answer_id answer" by simp
  qed
  then show ?thesis
    by (auto simp: updateAnswerRow_def evaluateRow_def answerKey_def)
qed

lemma unmatched_entry_row:
  assumes "find (\<lambda>a. answer_attemptId a = attemptId \<and> answer_questionId a = ev_questionId ev) rows = None"
    and "a \<in> set rows"
  shows "evaluateRow attemptId teacherId now ev a = a"
  using assms by (auto simp: find_None_iff evaluateRow_def)

text \<open>The loop without failures, in closed form.\<close>

lemma evaluateEntries_noFault:
  assumes "distinct (map answer_id rows)" and "distinct (map answerKey rows)"
  shows "evaluateEntries noFault attemptId teacherId now evs (k, t, c, rows) =
           Inr (k + length evs + length (matchedEntries attemptId rows evs),
                t + sum_list (map ev_marks (matchedEntries attemptId rows evs)),
                c + length (matchedEntries attemptId rows evs),
                map (\<lambda>a. fold (evaluateRow attemptId teacherId now) evs a) rows)"
  using assms
proof (induction evs arbitrary: k t c rows)
  case Nil
  then show ?case by (simp add: matchedEntries_def)
next
  case (Cons ev evs)
  show ?case
  proof (cases "find (\<lambda>a. answer_attemptId a = attemptId \<and> answer_questionId a = ev_questionId ev) rows")
    case None
    then have nomatch: "\<not> entryMatches attemptId rows ev"
      by (simp add: entryMatches_def find_None_list_ex)
    have same: "map (\<lambda>a. fold (evaluateRow attemptId teacherId now) evs
                           (evaluateRow attemptId teacherId now ev a)) rows
                = map (\<lambda>a. fold (evaluateRow attemptId teacherId now) evs a) rows"
      by (rule map_cong) (simp_all add: unmatched_entry_row [OF None])
    from None nomatch Cons.IH [OF Cons.prems] same show ?thesis
      by (simp add: noFault_def matchedEntries_def)
  next
    case (Some answer)
    let ?rows' = "map (evaluateRow attemptId teacherId now ev) rows"
    have upd: "updateAnswerRow (answer_id answer) (evaluationData teacherId now ev) rows = ?rows'"
      by (rule update_found_row [OF Cons.prems Some])
    have ids': "map answer_id ?rows' = map answer_id rows"
      and keys': "map answerKey ?rows' = map answerKey rows"
      by simp_all
    from Some have match: "entryMatches attemptId rows ev"
      using find_None_list_ex [of "\<lambda>a. answer_attemptId a = attemptId \<and> answer_questionId a = ev_questionId ev" rows]
      by (simp add: entryMatches_def)
    have d1: "distinct (map answer_id ?rows')" and d2: "distinct (map answerKey ?rows')"
      using Cons.prems by (simp_all only: ids' keys')
    from Cons.IH [OF d1 d2, of "k + 2" "t + ev_marks ev" "c + 1"] Some match upd
      matchedEntries_cong [OF keys', of attemptId evs]
    show ?thesis
      by (simp add: noFault_def matchedEntries_def comp_def)
  qed
qed

text \<open>What the entries of a batch do to one row, taken together.\<close>

lemma fold_evaluateRow:
  "fold (evaluateRow attemptId teacherId now) evs a =
     (if answer_attemptId a = attemptId \<and> entriesFor a evs \<noteq> []
        then a\<lparr>answer_marks := Some (ev_marks (last (entriesFor a evs))),
               answer_feedback :=
                 fold (\<lambda>ev. setIfDefined (ev_feedback ev)) (entriesFor a evs) (answer_feedback a),
               answer_evaluatedBy := Some teacherId,
               answer_evaluatedAt := Some now\<rparr>
      else a)"
  by (induction evs rule: rev_induct)
     (auto simp: entriesFor_def evaluateRow_def evaluationData_def)

text \<open>
  Claim C7. For a bulk evaluation by the teacher who owns the exam (identifiers and
  (attempt, question) keys of answers unique, as the database enforces): the call
  succeeds and returns the number of matched entries, entries without an answer being
  skipped; every answer of the attempt with at least one entry has the marks of the last
  such entry, the feedback of the entries that carry one (the last wins), the teacher as
  \<open>evaluatedBy\<close> and the time of the call as \<open>evaluatedAt\<close>; every other answer is as
  before; and the attempt has status \<open>EVALUATED\<close>, the teacher as \<open>evaluatedBy\<close>, and
  as score the sum of the marks of the matched entries, whatever its score was.
\<close>

theorem bulkEvaluate_effect:
  assumes att: "find (\<lambda>a. attempt_id a = attemptId) (db_attempts db) = Some attempt"
    and ex: "find (\<lambda>e. exam_id e = attempt_examId attempt) (db_exams db) = Some exam"
    and owner: "exam_teacherId exam = teacherId"
    and ids: "distinct (map answer_id (db_answers db))"
    and keys: "distinct (map answerKey (db_answers db))"
  shows "bulkEvaluate noFault now attemptId teacherId evs db =
           (Inr (length (matchedEntries attemptId (db_answers db) evs)),
            db\<lparr>db_answers :=
                 map (\<lambda>a. if answer_attemptId a = attemptId \<and> entriesFor a evs \<noteq> []
                           then a\<lparr>answer_marks := Some (ev_marks (last (entriesFor a evs))),
                                  answer_feedback :=
                                    fold (\<lambda>ev. setIfDefined (ev_feedback ev)) (entriesFor a evs)
                                      (answer_feedback a),
                                  answer_evaluatedBy := Some teacherId,
                                  answer_evaluatedAt := Some now\<rparr>
                           else a)
                   (db_answers db),
               db_attempts :=
                 updateAttemptRow attemptId
                   (\<lambda>a. a\<lparr>attempt_status := EVALUATED,
                          attempt_score :=
                            Some (sum_list (map ev_marks (matchedEntries attemptId (db_answers db) evs))),
                          attempt_evaluatedBy := Some teacherId\<rparr>)
                   (db_attempts db)\<rparr>)
       \<and> find (\<lambda>a. attempt_id a = attemptId)
            (db_attempts (snd (bulkEvaluate noFault now attemptId teacherId evs db)))
          = Some (attempt\<lparr>attempt_status := EVALUATED,
                     attempt_score :=
                       Some (sum_list (map ev_marks (matchedEntries attemptId (db_answers db) evs))),
                     attempt_evaluatedBy := Some teacherId\<rparr>)"
proof -
  let ?M = "matchedEntries attemptId (db_answers db) evs"
  let ?f = "\<lambda>a. a\<lparr>attempt_status := EVALUATED, attempt_score := Some (sum_list (map ev_marks ?M)),
                    attempt_evaluatedBy := Some teacherId\<rparr>"
  have loop: "evaluateEntries noFault attemptId teacherId now evs (0, 0, 0, db_answers db) =
           Inr (length evs + length ?M, sum_list (map ev_marks ?M), length ?M,
                map (\<lambda>a. fold (evaluateRow attemptId teacherId now) evs a) (db_answers db))"
    using evaluateEntries_noFault [OF ids keys, of attemptId teacherId now evs 0 0 0] by simp
  have run: "bulkEvaluate noFault now attemptId teacherId evs db =
           (Inr (length ?M),
            db\<lparr>db_answers := map (\<lambda>a. fold (evaluateRow attemptId teacherId now) evs a) (db_answers db),
               db_attempts := updateAttemptRow attemptId ?f (db_attempts db)\<rparr>)"
    using att ex owner
    by (simp add: bulkEvaluate_def transaction_def bulkEvaluate_body_def loop)
       (simp add: noFault_def)
  have found: "find (\<lambda>a. attempt_id a = attemptId) (updateAttemptRow attemptId ?f (db_attempts db))
                 = Some (?f attempt)"
    by (rule find_updateAttemptRow [OF att]) simp
  from run found show ?thesis
    by (simp add: fold_evaluateRow)
qed

theorem bulkEvaluate_effect_witness:
  "find (\<lambda>a. attempt_id a = ''a1'') (db_attempts dbSubmitted) = Some attemptSubmitted
   \<and> find (\<lambda>e. exam_id e = attempt_examId attemptSubmitted) (db_exams dbSubmitted) = Some exam1
   \<and> exam_teacherId exam1 = ''t1''
   \<and> distinct (map answer_id (db_answers dbSubmitted))
   \<and> distinct (map answerKey (db_answers dbSubmitted))
   \<and> bulkEvaluate noFault 200 ''a1'' ''t1'' evaluations1 dbSubmitted =
       (Inr 1,
        dbSubmitted\<lparr>db_answers :=
                      [answer1,
                       answer2\<lparr>answer_marks := Some 7, answer_feedback := Some ''good'',
                               answer_evaluatedBy := Some ''t1'', answer_evaluatedAt := Some 200\<rparr>],
                    db_attempts :=
                      [attemptSubmitted\<lparr>attempt_status := EVALUATED, attempt_score := Some 7,
                                        attempt_evaluatedBy := Some ''t1''\<rparr>]\<rparr>)"
proof -
  have h1: "find (\<lambda>a. attempt_id a = ''a1'') (db_attempts dbSubmitted) = Some attemptSubmitted"
    by (simp add: sample_defs)
  have h2: "find (\<lambda>e. exam_id e = attempt_examId attemptSubmitted) (db_exams dbSubmitted) = Some exam1"
    by (simp add: sample_defs)
  have h3: "exam_teacherId exam1 = ''t1''"
    by (simp add: sample_defs)
  have h4: "distinct (map answer_id (db_answers dbSubmitted))"
    by (simp add: sample_defs)
  have h5: "distinct (map answerKey (db_answers dbSubmitted))"
    by (simp add: sample_defs answerKey_def)
  have m: "matchedEntries ''a1'' [answer1, answer2] evaluations1
             = [\<lparr> ev_questionId = ''q2'', ev_marks = 7, ev_feedback = Some ''good'' \<rparr>]"
    by (simp add: sample_defs matchedEntries_def entryMatches_def)
  have rows: "db_answers dbSubmitted = [answer1, answer2]"
    and atts: "db_attempts dbSubmitted = [attemptSubmitted]"
    by (simp_all add: sample_defs)
  have e1: "entriesFor answer1 evaluations1 = []"
    and e2: "entriesFor answer2 evaluations1
               = [\<lparr> ev_questionId = ''q2'', ev_marks = 7, ev_feedback = Some ''good'' \<rparr>]"
    by (simp_all add: sample_defs entriesFor_def)
  have a2: "answer_attemptId answer2 = ''a1''" and i1: "attempt_id attemptSubmitted = ''a1''"
    by (simp_all add: sample_defs)
  from bulkEvaluate_effect [OF h1 h2 h3 h4 h5, of 200 evaluations1]
  have "bulkEvaluate noFault 200 ''a1'' ''t1'' evaluations1 dbSubmitted =
       (Inr 1,
        dbSubmitted\<lparr>db_answers :=
                      [answer1,
                       answer2\<lparr>answer_marks := Some 7, answer_feedback := Some ''good'',
                               answer_evaluatedBy := Some ''t1'', answer_evaluatedAt := Some 200\<rparr>],
                    db_attempts :=
                      [attemptSubmitted\<lparr>attempt_status := EVALUATED, attempt_score := Some 7,
                                        attempt_evaluatedBy := Some ''t1''\<rparr>]\<rparr>)"
    by (simp add: m rows atts e1 e2 a2 i1 updateAttemptRow_def setIfDefined_def)
  with h1 h2 h3 h4 h5 show ?thesis by simp
qed

text \<open>A run of the loop that gets through under a fault plan is the run without faults.\<close>

lemma evaluateEntries_fault_free:
  "evaluateEntries fault attemptId teacherId now evs st = Inr res \<Longrightarrow>
     evaluateEntries noFault attemptId teacherId now evs st = Inr res"
proof (induction evs arbitrary: st)
  case Nil
  then show ?case by simp
next
  case (Cons ev evs)
  obtain k t c rows where st: "st = (k, t, c, rows)" by (cases st) auto
  from Cons.prems Cons.IH show ?case
    unfolding st by (auto simp: noFault_def split: if_splits option.splits)
qed

text \<open>
  Claim C8. Whatever statements of the transaction are interrupted, a bulk evaluation
  that fails leaves the database as it was before the call (no answer keeps marks of the
  batch, and status, score and evaluator of the attempt are unchanged), and one that
  succeeds has the whole effect of the uninterrupted call. All writes of the operation,
  the answers' and the attempt's, are statements of the one transaction.
\<close>

theorem bulkEvaluate_all_or_nothing:
  "(fst (bulkEvaluate fault now attemptId teacherId evs db) = Inl e \<longrightarrow>
      snd (bulkEvaluate fault now attemptId teacherId evs db) = db)
   \<and> (fst (bulkEvaluate fault now attemptId teacherId evs db) = Inr n \<longrightarrow>
      bulkEvaluate fault now attemptId teacherId evs db
        = bulkEvaluate noFault now attemptId teacherId evs db)"
proof (intro conjI impI)
  assume "fst (bulkEvaluate fault now attemptId teacherId evs db) = Inl e"
  then show "snd (bulkEvaluate fault now attemptId teacherId evs db) = db"
    by (auto simp: bulkEvaluate_def transaction_def split: option.splits if_splits sum.splits)
next
  assume ok: "fst (bulkEvaluate fault now attemptId teacherId evs db) = Inr n"
  show "bulkEvaluate fault now attemptId teacherId evs db
        = bulkEvaluate noFault now attemptId teacherId evs db"
  proof (cases "evaluateEntries fault attemptId teacherId now evs (0, 0, 0, db_answers db)")
    case (Inl e')
    with ok show ?thesis
      by (auto simp: bulkEvaluate_def transaction_def bulkEvaluate_body_def
          split: option.splits if_splits)
  next
    case (Inr res)
    note free = evaluateEntries_fault_free [OF Inr]
    obtain k t c rows where res: "res = (k, t, c, rows)" by (cases res) auto
    from ok Inr free show ?thesis
      unfolding res
      by (auto simp: bulkEvaluate_def transaction_def bulkEvaluate_body_def noFault_def
          split: option.splits if_splits)
  qed
qed

lemma interrupted_sample:
  "bulkEvaluate (faultAt 3) 200 ''a1'' ''t1'' evaluations2 dbSubmitted
     = (Inl InternalServerError, dbSubmitted)"
  by (simp add: sample_defs bulkEvaluate_def bulkEvaluate_body_def transaction_def faultAt_def
      updateAnswerRow_def evaluationData_def)

lemma late_fault_sample:
  "fst (bulkEvaluate (faultAt 9) 200 ''a1'' ''t1'' evaluations2 dbSubmitted) = Inr 2"
  by (simp add: sample_defs bulkEvaluate_def bulkEvaluate_body_def transaction_def faultAt_def
      updateAnswerRow_def evaluationData_def)

theorem bulkEvaluate_all_or_nothing_witness:
  "fst (bulkEvaluate (faultAt 3) 200 ''a1'' ''t1'' evaluations2 dbSubmitted) = Inl InternalServerError
   \<and> snd (bulkEvaluate (faultAt 3) 200 ''a1'' ''t1'' evaluations2 dbSubmitted) = dbSubmitted
   \<and> fst (bulkEvaluate (faultAt 9) 200 ''a1'' ''t1'' evaluations2 dbSubmitted) = Inr 2
   \<and> bulkEvaluate (faultAt 9) 200 ''a1'' ''t1'' evaluations2 dbSubmitted
       = bulkEvaluate noFault 200 ''a1'' ''t1'' evaluations2 dbSubmitted"
proof -
  have f: "fst (bulkEvaluate (faultAt 3) 200 ''a1'' ''t1'' evaluations2 dbSubmitted)
             = Inl InternalServerError"
    by (simp add: interrupted_sample)
  from bulkEvaluate_all_or_nothing
         [of "faultAt 3" 200 "''a1''" "''t1''" evaluations2 dbSubmitted InternalServerError 0] f
  have a: "snd (bulkEvaluate (faultAt 3) 200 ''a1'' ''t1'' evaluations2 dbSubmitted) = dbSubmitted"
    by simp
  from bulkEvaluate_all_or_nothing
         [of "faultAt 9" 200 "''a1''" "''t1''" evaluations2 dbSubmitted InternalServerError 2]
       late_fault_sample
  have b: "bulkEvaluate (faultAt 9) 200 ''a1'' ''t1'' evaluations2 dbSubmitted
       = bulkEvaluate noFault 200 ''a1'' ''t1'' evaluations2 dbSubmitted"
    by simp
  from f a late_fault_sample b show ?thesis by simp
qed

section \<open>Submission when scoring fails\<close>

text \<open>
  Claim C9. When the student submits an attempt and the scoring computation throws (its
  \<^verbatim>\<open>try\<close> block ends in an exception), the call still succeeds: the stored attempt is
  \<open>SUBMITTED\<close> with \<open>submitTime\<close> the time of the call, and score, counts, accuracy and
  percentage are what they were before, so unset on an attempt never scored.
\<close>

theorem submit_survives_scoring_failure:
  assumes att: "find (\<lambda>a. attempt_id a = i) (db_attempts db) = Some existing"
    and own: "attempt_userId existing = userId"
    and sub: "uad_status dto = Some SUBMITTED"
    and thrown: "calculateScore_try scoringFails db
                   (find (\<lambda>e. exam_id e = attempt_examId existing) (db_exams db)) i = Inl e"
  shows "\<exists>r. fst (AttemptService_update scoringFails now i userId dto False db) = Inr r
           \<and> find (\<lambda>a. attempt_id a = i)
                (db_attempts (snd (AttemptService_update scoringFails now i userId dto False db)))
              = Some r
           \<and> attempt_status r = SUBMITTED
           \<and> attempt_submitTime r = Some now
           \<and> attempt_score r = attempt_score existing
           \<and> attempt_correctAnswers r = attempt_correctAnswers existing
           \<and> attempt_incorrectAnswers r = attempt_incorrectAnswers existing
           \<and> attempt_unattempted r = attempt_unattempted existing
           \<and> attempt_accuracy r = attempt_accuracy existing
           \<and> attempt_percentage r = attempt_percentage existing"
proof -
  let ?f = "studentUpdateData None now dto existing"
  have none: "calculateScore scoringFails db
                (find (\<lambda>e. exam_id e = attempt_examId existing) (db_exams db)) i = None"
    using thrown by (simp add: calculateScore_def)
  have run: "AttemptService_update scoringFails now i userId dto False db =
           (Inr (?f existing), db\<lparr>db_attempts := updateAttemptRow i ?f (db_attempts db)\<rparr>)"
    using att own sub none by (simp add: AttemptService_update_def)
  have found: "find (\<lambda>a. attempt_id a = i) (updateAttemptRow i ?f (db_attempts db)) = Some (?f existing)"
    by (rule find_updateAttemptRow [OF att]) (simp add: studentUpdateData_def sub)
  from run found sub show ?thesis
    by (simp add: studentUpdateData_def)
qed


theorem submit_survives_scoring_failure_witness:
  "find (\<lambda>a. attempt_id a = ''a1'') (db_attempts dbAnswered) = Some attempt1
   \<and> attempt_userId attempt1 = ''u1''
   \<and> uad_status (statusDto SUBMITTED) = Some SUBMITTED
   \<and> calculateScore_try True dbAnswered
        (find (\<lambda>e. exam_id e = attempt_examId attempt1) (db_exams dbAnswered)) ''a1''
       = Inl InternalServerError
   \<and> attempt_score attempt1 = None
   \<and> (\<exists>r. fst (AttemptService_update True 100 ''a1'' ''u1'' (statusDto SUBMITTED) False dbAnswered)
              = Inr r
           \<and> attempt_status r = SUBMITTED \<and> attempt_submitTime r = Some 100
           \<and> attempt_score r = None \<and> attempt_percentage r = None)"
proof -
  have att: "find (\<lambda>a. attempt_id a = ''a1'') (db_attempts dbAnswered) = Some attempt1"
    by (simp add: sample_defs)
  have own: "attempt_userId attempt1 = ''u1''"
    and sub: "uad_status (statusDto SUBMITTED) = Some SUBMITTED"
    and unset: "attempt_score attempt1 = None" "attempt_percentage attempt1 = None"
    by (simp_all add: sample_defs)
  have thrown: "calculateScore_try True dbAnswered
        (find (\<lambda>e. exam_id e = attempt_examId attempt1) (db_exams dbAnswered)) ''a1''
       = Inl InternalServerError"
    by (simp add: calculateScore_try_def)
  from submit_survives_scoring_failure [OF att own sub thrown, of 100] unset
  have "\<exists>r. fst (AttemptService_update True 100 ''a1'' ''u1'' (statusDto SUBMITTED) False dbAnswered)
              = Inr r
           \<and> attempt_status r = SUBMITTED \<and> attempt_submitTime r = Some 100
           \<and> attempt_score r = None \<and> attempt_percentage r = None"
    by auto
  with att own sub thrown unset show ?thesis by simp
qed

section \<open>The two locks of the answer ledger\<close>

text \<open>A student can always mark an own attempt completed.\<close>

lemma complete_sample:
  "AttemptService_update False 50 ''a1'' ''u1'' (statusDto COMPLETED) False dbAnswered
     = (Inr attemptCompleted, dbCompleted)"
  by (simp add: sample_defs attemptCompleted_def dbCompleted_def AttemptService_update_def
      studentUpdateData_def updateAttemptRow_def setIfDefined_def)

lemma student_can_complete:
  assumes att: "find (\<lambda>a. attempt_id a = i) (db_attempts db) = Some existing"
    and own: "attempt_userId existing = userId"
  shows "\<exists>r. fst (AttemptService_update scoringFails now i userId (statusDto COMPLETED) False db) = Inr r
           \<and> find (\<lambda>a. attempt_id a = i)
                (db_attempts (snd (AttemptService_update scoringFails now i userId
                                     (statusDto COMPLETED) False db))) = Some r
           \<and> attempt_status r = COMPLETED"
proof -
  let ?f = "studentUpdateData None now (statusDto COMPLETED) existing"
  have run: "AttemptService_update scoringFails now i userId (statusDto COMPLETED) False db =
           (Inr (?f existing), db\<lparr>db_attempts := updateAttemptRow i ?f (db_attempts db)\<rparr>)"
    using att own by (simp add: AttemptService_update_def statusDto_def)
  have found: "find (\<lambda>a. attempt_id a = i) (updateAttemptRow i ?f (db_attempts db)) = Some (?f existing)"
    by (rule find_updateAttemptRow [OF att]) (simp add: studentUpdateData_def statusDto_def)
  from run found show ?thesis
    by (simp add: studentUpdateData_def statusDto_def)
qed

text \<open>
  Claim C10. On an attempt in status \<open>COMPLETED\<close> the owning student's write through
  \<^verbatim>\<open>AnswerService.create\<close> is accepted: the call returns the row that the answer
  table then holds under the request's (attempt, question) key, and that row carries the
  request's choice, text and time spent (for a field the request leaves out, what an
  answer already stored under the key had, or nothing) and the marks computed at write
  time. A revision of an answer of that attempt through \<^verbatim>\<open>AnswerService.update\<close> is
  rejected with \<open>ForbiddenException\<close> and changes nothing. The status is reachable: it
  is the one the student's own request sets (\<open>student_can_complete\<close>).
\<close>

theorem completed_attempt_upsert_accepts_update_rejects:
  assumes att: "find (\<lambda>t. attempt_id t = cans_attemptId cdto) (db_attempts db) = Some attempt"
    and own: "attempt_userId attempt = userId"
    and st: "attempt_status attempt = COMPLETED"
    and q: "find (\<lambda>q. question_id q = cans_questionId cdto) (db_questions db) = Some question"
    and qe: "question_examId question = attempt_examId attempt"
    and ex: "find (\<lambda>e. exam_id e = attempt_examId attempt) (db_exams db) = Some exam"
    and ans: "find (\<lambda>a. answer_id a = i) (db_answers db) = Some answer"
    and aa: "answer_attemptId answer = cans_attemptId cdto"
  shows "(\<exists>row. fst (AnswerService_create newId userId cdto db) = Inr row
            \<and> find (\<lambda>a. answer_attemptId a = cans_attemptId cdto
                         \<and> answer_questionId a = cans_questionId cdto)
                 (db_answers (snd (AnswerService_create newId userId cdto db))) = Some row
            \<and> answer_attemptId row = cans_attemptId cdto
            \<and> answer_questionId row = cans_questionId cdto
            \<and> answer_selectedOption row =
                (case cans_selectedOption cdto of
                   Some s \<Rightarrow> Some s
                 | None \<Rightarrow>
                     (case find (\<lambda>a. answer_attemptId a = cans_attemptId cdto
                                      \<and> answer_questionId a = cans_questionId cdto) (db_answers db) of
                        None \<Rightarrow> None
                      | Some old \<Rightarrow> answer_selectedOption old))
            \<and> answer_answerText row =
                (case cans_answerText cdto of
                   Some s \<Rightarrow> Some s
                 | None \<Rightarrow>
                     (case find (\<lambda>a. answer_attemptId a = cans_attemptId cdto
                                      \<and> answer_questionId a = cans_questionId cdto) (db_answers db) of
                        None \<Rightarrow> None
                      | Some old \<Rightarrow> answer_answerText old))
            \<and> answer_timeSpent row =
                (case cans_timeSpent cdto of
                   Some t \<Rightarrow> Some t
                 | None \<Rightarrow>
                     (case find (\<lambda>a. answer_attemptId a = cans_attemptId cdto
                                      \<and> answer_questionId a = cans_questionId cdto) (db_answers db) of
                        None \<Rightarrow> None
                      | Some old \<Rightarrow> answer_timeSpent old))
            \<and> answer_marks row =
                (if question_type question = MCQ \<and> truthy (cans_selectedOption cdto)
                    \<and> exam_negativeMarking exam
                 then (if cans_selectedOption cdto = question_correctOption question
                         then Some (exam_correctMark exam) else Some (exam_incorrectMark exam))
                 else None))
       \<and> AnswerService_update i userId udto db = (Inl ForbiddenException, db)"
proof -
  let ?key = "\<lambda>a. answer_attemptId a = cans_attemptId cdto
                    \<and> answer_questionId a = cans_questionId cdto"
  let ?marks = "if question_type question = MCQ \<and> truthy (cans_selectedOption cdto)
                    \<and> exam_negativeMarking exam
                 then (if cans_selectedOption cdto = question_correctOption question
                         then Some (exam_correctMark exam) else Some (exam_incorrectMark exam))
                 else None"
  have wm: "writeTimeMarks (find (\<lambda>e. exam_id e = attempt_examId attempt) (db_exams db))
              question cdto = Inr ?marks"
    by (simp add: ex writeTimeMarks_def)
  have upd: "AnswerService_update i userId udto db = (Inl ForbiddenException, db)"
    using ans aa att own st by (simp add: AnswerService_update_def)
  show ?thesis
  proof (cases "find ?key (db_answers db)")
    case None
    have run: "AnswerService_create newId userId cdto db =
                 (Inr (newAnswer newId cdto ?marks),
                  db\<lparr>db_answers := db_answers db @ [newAnswer newId cdto ?marks]\<rparr>)"
      using att own st q qe wm None by (simp add: AnswerService_create_def)
    have stored: "find ?key (db_answers db @ [newAnswer newId cdto ?marks])
                    = Some (newAnswer newId cdto ?marks)"
      by (rule find_appended_row [OF None]) (simp add: newAnswer_def)
    from run stored None upd show ?thesis
      by (simp add: newAnswer_def split: option.splits)
  next
    case (Some old)
    then have key: "?key old" by (auto dest: find_SomeD)
    have run: "AnswerService_create newId userId cdto db =
                 (Inr (upsertUpdateData cdto ?marks old),
                  db\<lparr>db_answers :=
                       map (\<lambda>a. if ?key a then upsertUpdateData cdto ?marks a else a)
                         (db_answers db)\<rparr>)"
      using att own st q qe wm Some by (simp add: AnswerService_create_def)
    have stored: "find ?key (map (\<lambda>a. if ?key a then upsertUpdateData cdto ?marks a else a)
                               (db_answers db))
                    = Some (upsertUpdateData cdto ?marks old)"
      using key by (intro find_rewritten_row [OF Some]) (simp add: upsertUpdateData_def)
    from run stored Some key upd show ?thesis
      by (simp add: upsertUpdateData_def setIfDefined_def split: option.splits)
  qed
qed

theorem completed_attempt_upsert_accepts_update_rejects_witness:
  "snd (AttemptService_update False 50 ''a1'' ''u1'' (statusDto COMPLETED) False dbAnswered)
     = dbCompleted
   \<and> find (\<lambda>t. attempt_id t = cans_attemptId (answerDto ''c'')) (db_attempts dbCompleted)
       = Some attemptCompleted
   \<and> attempt_userId attemptCompleted = ''u1''
   \<and> attempt_status attemptCompleted = COMPLETED
   \<and> find (\<lambda>q. question_id q = cans_questionId (answerDto ''c'')) (db_questions dbCompleted)
       = Some question1
   \<and> question_examId question1 = attempt_examId attemptCompleted
   \<and> find (\<lambda>e. exam_id e = attempt_examId attemptCompleted) (db_exams dbCompleted) = Some exam1
   \<and> find (\<lambda>a. answer_id a = ''n1'') (db_answers dbCompleted) = Some answer1
   \<and> answer_attemptId answer1 = cans_attemptId (answerDto ''c'')
   \<and> answer_selectedOption answer1 = Some ''b''
   \<and> (\<exists>row. fst (AnswerService_create ''n9'' ''u1'' (answerDto ''c'') dbCompleted) = Inr row
          \<and> find (\<lambda>a. answer_attemptId a = ''a1'' \<and> answer_questionId a = ''q1'')
               (db_answers (snd (AnswerService_create ''n9'' ''u1'' (answerDto ''c'') dbCompleted)))
             = Some row
          \<and> answer_selectedOption row = Some ''c''
          \<and> answer_answerText row = None
          \<and> answer_timeSpent row = Some 30
          \<and> answer_marks row = Some (- 1))
   \<and> AnswerService_update ''n1'' ''u1'' timeDto dbCompleted = (Inl ForbiddenException, dbCompleted)"
proof -
  have reach: "snd (AttemptService_update False 50 ''a1'' ''u1'' (statusDto COMPLETED) False dbAnswered)
     = dbCompleted"
    by (simp add: complete_sample)
  have att: "find (\<lambda>t. attempt_id t = cans_attemptId (answerDto ''c'')) (db_attempts dbCompleted)
       = Some attemptCompleted"
    by (simp add: sample_defs)
  have own: "attempt_userId attemptCompleted = ''u1''"
    and st: "attempt_status attemptCompleted = COMPLETED"
    and qe: "question_examId question1 = attempt_examId attemptCompleted"
    and aa: "answer_attemptId answer1 = cans_attemptId (answerDto ''c'')"
    and old: "answer_selectedOption answer1 = Some ''b''"
    by (simp_all add: sample_defs)
  have q: "find (\<lambda>q. question_id q = cans_questionId (answerDto ''c'')) (db_questions dbCompleted)
       = Some question1"
    by (simp add: sample_defs)
  have ex: "find (\<lambda>e. exam_id e = attempt_examId attemptCompleted) (db_exams dbCompleted) = Some exam1"
    by (simp add: sample_defs)
  have ans: "find (\<lambda>a. answer_id a = ''n1'') (db_answers dbCompleted) = Some answer1"
    by (simp add: sample_defs)
  have dto: "cans_attemptId (answerDto ''c'') = ''a1''" "cans_questionId (answerDto ''c'') = ''q1''"
    "cans_selectedOption (answerDto ''c'') = Some ''c''" "cans_answerText (answerDto ''c'') = None"
    "cans_timeSpent (answerDto ''c'') = Some 30"
    by (simp_all add: answerDto_def)
  have stored: "find (\<lambda>a. answer_attemptId a = ''a1'' \<and> answer_questionId a = ''q1'')
                  (db_answers dbCompleted) = Some answer1"
    and plain: "answer_answerText answer1 = None"
    by (simp_all add: sample_defs)
  have marks: "question_type question1 = MCQ" "exam_negativeMarking exam1"
    "question_correctOption question1 = Some ''a''" "exam_incorrectMark exam1 = - 1"
    by (simp_all add: sample_defs)
  from completed_attempt_upsert_accepts_update_rejects
         [OF att own st q qe ex ans aa, of "''n9''" timeDto]
  have "(\<exists>row. fst (AnswerService_create ''n9'' ''u1'' (answerDto ''c'') dbCompleted) = Inr row
          \<and> find (\<lambda>a. answer_attemptId a = ''a1'' \<and> answer_questionId a = ''q1'')
               (db_answers (snd (AnswerService_create ''n9'' ''u1'' (answerDto ''c'') dbCompleted)))
             = Some row
          \<and> answer_selectedOption row = Some ''c''
          \<and> answer_answerText row = None
          \<and> answer_timeSpent row = Some 30
          \<and> answer_marks row = Some (- 1))
   \<and> AnswerService_update ''n1'' ''u1'' timeDto dbCompleted = (Inl ForbiddenException, dbCompleted)"
    by (auto simp: dto stored plain marks truthy_def)
  with reach att own st q qe ex ans aa old show ?thesis by simp
qed

end
